theory Spec2Isabelle
  imports Complex_Main
begin

section \<open>Seeded stream generator (terrain-generator.ts, seededRandom)\<close>

text \<open>
  JavaScript numbers that hold integers are modelled as \<open>int\<close>, fractions as \<open>rat\<close>
  (the exact quotient; the source holds its nearest double).  The remainder operator
  \<open>%\<close> of the source takes the sign of the dividend.
\<close>

definition js_rem :: "int \<Rightarrow> int \<Rightarrow> int" where
  "js_rem a b = (if a < 0 then - ((- a) mod \<bar>b\<bar>) else a mod \<bar>b\<bar>)"

definition lcg_m :: int where
  "lcg_m = 2 ^ 35 - 31"

definition lcg_a :: int where
  "lcg_a = 185852"

text \<open>\<open>seededRandom(seed)\<close> allocates the closure variable \<open>s = seed % m\<close>.\<close>

definition seededRandom :: "int \<Rightarrow> int" where
  "seededRandom seed = js_rem seed lcg_m"

text \<open>
  One call of the returned closure: \<open>return (s = (s * a) % m) / m\<close>.
  The result is the value returned and the new content of \<open>s\<close>.
\<close>

definition random :: "int \<Rightarrow> rat \<times> int" where
  "random s = (let s' = js_rem (s * lcg_a) lcg_m in (of_int s' / of_int lcg_m, s'))"

text \<open>The first \<open>n\<close> values returned by successive calls, starting from state \<open>s\<close>.\<close>

fun draws :: "nat \<Rightarrow> int \<Rightarrow> rat list" where
  "draws 0 s = []"
| "draws (Suc n) s = (case random s of (r, s') \<Rightarrow> r # draws n s')"

text \<open>The content of \<open>s\<close> after \<open>n\<close> calls.\<close>

fun state_after :: "nat \<Rightarrow> int \<Rightarrow> int" where
  "state_after 0 s = s"
| "state_after (Suc n) s = state_after n (snd (random s))"


section \<open>Run-length codec (map-compression.ts)\<close>

text \<open>
  Record fields carry a prefix (\<open>seg_\<close>, \<open>row_\<close>, \<open>md_\<close>) before the source's name.
  What a number-typed variable of the codec can hold: \<open>Num q\<close> is the finite number
  \<open>q\<close> (exact, where the source holds a double), \<open>NaN\<close> and \<open>NegInfinity\<close> are the
  two special values the codec can produce, \<open>Undefined\<close> is \<open>undefined\<close> (a missing
  property or array element), and \<open>Unmodelled\<close> is a number whose value the model does
  not compute.  A string that can be \<open>undefined\<close> is an \<open>option\<close>, with \<open>None\<close> for
  \<open>undefined\<close>.
\<close>

datatype jsnum = Num rat | NaN | NegInfinity | Undefined | Unmodelled

record RLESegment =
  seg_terrain :: "string option"
  seg_count :: jsnum

record RLERow =
  row_segments :: "RLESegment list"
  row_y :: int

record Metadata =
  md_theme :: "string option"
  md_seed :: jsnum
  md_version :: "string option"
  md_compressionRatio :: jsnum

record CompressedMapData =
  dimensions :: "jsnum \<times> jsnum"
  rleData :: "RLERow list"
  metadata :: Metadata

text \<open>\<open>row[x]\<close>: \<open>undefined\<close> beyond the end of the row.\<close>

definition row_get :: "string list \<Rightarrow> nat \<Rightarrow> string option" where
  "row_get row x = (if x < length row then Some (row ! x) else None)"

text \<open>
  The inner loop of \<open>compressMap\<close>, \<open>for (let x = 1; x < width; x++)\<close>, over the loop
  variables \<open>currentTerrain\<close>, \<open>count\<close> and \<open>segments\<close>.
\<close>

function rle_scan ::
  "string list \<Rightarrow> nat \<Rightarrow> nat \<Rightarrow> string option \<Rightarrow> int \<Rightarrow> RLESegment list
    \<Rightarrow> RLESegment list \<times> string option \<times> int" where
  "rle_scan row width x currentTerrain cnt segs =
     (if x < width then
        (if row_get row x = currentTerrain
         then rle_scan row width (x + 1) currentTerrain (cnt + 1) segs
         else rle_scan row width (x + 1) (row_get row x) 1
                (segs @ [\<lparr>seg_terrain = currentTerrain, seg_count = Num (of_int cnt)\<rparr>]))
      else (segs, currentTerrain, cnt))"
  by pat_completeness auto
termination
  by (relation "measure (\<lambda>(row, width, x, cur, cnt, segs). width - x)") auto

declare rle_scan.simps [simp del]

text \<open>The body of the outer loop: the run-length row of \<open>terrainLayer[y]\<close>.\<close>

definition compress_row :: "nat \<Rightarrow> int \<Rightarrow> string list \<Rightarrow> RLERow" where
  "compress_row width yy row =
     (case rle_scan row width 1 (row_get row 0) 1 [] of
        (segs, currentTerrain, cnt) \<Rightarrow>
          \<lparr>row_segments = segs @ [\<lparr>seg_terrain = currentTerrain, seg_count = Num (of_int cnt)\<rparr>], row_y = yy\<rparr>)"

text \<open>\<open>terrainLayer[0]?.length || 0\<close>\<close>

definition first_row_length :: "string list list \<Rightarrow> nat" where
  "first_row_length terrainLayer = (case terrainLayer of [] \<Rightarrow> 0 | row # _ \<Rightarrow> length row)"

text \<open>\<open>rleData.reduce((sum, row) => sum + row.segments.length, 0)\<close>\<close>

definition segment_total :: "RLERow list \<Rightarrow> nat" where
  "segment_total rows = foldl (\<lambda>sum row. sum + length (row_segments row)) 0 rows"

text \<open>
  \<open>(1 - (compressedSize / originalSize)) * 100\<close>: division of a positive count by
  zero is \<open>Infinity\<close>, of zero by zero \<open>NaN\<close>.
\<close>

fun ratio_of :: "nat \<Rightarrow> jsnum \<Rightarrow> jsnum" where
  "ratio_of compressedSize (Num originalSize) =
     (if originalSize = 0 then (if compressedSize = 0 then NaN else NegInfinity)
      else Num ((1 - of_nat compressedSize / originalSize) * 100))"
| "ratio_of compressedSize NegInfinity = Num 100"
| "ratio_of compressedSize NaN = NaN"
| "ratio_of compressedSize Undefined = NaN"
| "ratio_of compressedSize Unmodelled = Unmodelled"

definition compressMap :: "string list list \<Rightarrow> jsnum \<Rightarrow> string \<Rightarrow> CompressedMapData" where
  "compressMap terrainLayer sd th =
     (let height = length terrainLayer;
          width = first_row_length terrainLayer;
          rle = map (\<lambda>(yy, row). compress_row width (int yy) row)
                  (zip [0 ..< height] terrainLayer);
          originalSize = Num (of_nat (height * width));
          compressedSize = segment_total rle
      in \<lparr>dimensions = (Num (of_nat width), Num (of_nat height)),
          rleData = rle,
          metadata = \<lparr>md_theme = Some th, md_seed = sd, md_version = Some ''1.0.0'',
                      md_compressionRatio = ratio_of compressedSize originalSize\<rparr>\<rparr>)"

text \<open>
  \<open>decompressMap\<close> starts with \<open>const { width, height, rleData } = compressedData\<close>.
  The keys of a \<open>CompressedMapData\<close> object are \<open>dimensions\<close>, \<open>rleData\<close> and
  \<open>metadata\<close>; the sizes live in \<open>dimensions\<close>, so the destructured \<open>width\<close> and
  \<open>height\<close> are \<open>undefined\<close> whatever the argument is.
\<close>

definition destructured_height :: "CompressedMapData \<Rightarrow> jsnum" where
  "destructured_height compressedData = Undefined"

text \<open>\<open>y < height\<close>, which is false when \<open>height\<close> is \<open>undefined\<close> or \<open>NaN\<close>.\<close>

fun below :: "int \<Rightarrow> jsnum \<Rightarrow> bool" where
  "below i (Num q) = (of_int i < q)"
| "below i _ = False"

text \<open>
  The innermost loop, \<open>for (let i = 0; i < segment.count; i++) row.push(segment.terrain)\<close>:
  the cells one segment pushes.
\<close>

fun repeat_terrain :: "jsnum \<Rightarrow> string option \<Rightarrow> string option list" where
  "repeat_terrain (Num q) t = replicate (nat \<lceil>q\<rceil>) t"
| "repeat_terrain _ t = []"

definition expand_seg :: "RLESegment \<Rightarrow> string option list" where
  "expand_seg seg = repeat_terrain (seg_count seg) (seg_terrain seg)"

text \<open>The row built for one \<open>y\<close>: empty when \<open>find\<close> returns \<open>undefined\<close>.\<close>

definition expand_row :: "RLERow option \<Rightarrow> string option list" where
  "expand_row rleRow =
     (case rleRow of None \<Rightarrow> []
      | Some r \<Rightarrow> concat (map expand_seg (row_segments r)))"

function decompress_rows ::
  "jsnum \<Rightarrow> RLERow list \<Rightarrow> int \<Rightarrow> string option list list \<Rightarrow> string option list list" where
  "decompress_rows height rle yy terrainLayer =
     (if below yy height
      then decompress_rows height rle (yy + 1)
             (terrainLayer @ [expand_row (find (\<lambda>r. row_y r = yy) rle)])
      else terrainLayer)"
  by pat_completeness auto
termination
  apply (relation "measure (\<lambda>(height, rle, yy, acc).
         (case height of Num q \<Rightarrow> nat (\<lceil>q\<rceil> - yy) | _ \<Rightarrow> 0))")
   apply simp
  subgoal for height rle yy acc
    by (cases "(yy, height)" rule: below.cases) (auto simp: less_ceiling_iff)
  done

declare decompress_rows.simps [simp del]

definition decompressMap :: "CompressedMapData \<Rightarrow> string option list list" where
  "decompressMap compressedData =
     decompress_rows (destructured_height compressedData) (rleData compressedData) 0 []"

text \<open>
  The ways a call of the source can fail to return a value: a \<open>TypeError\<close> (a property
  read or a method call on \<open>undefined\<close>), a cell index outside the grid, and a
  recursion that does not end.
\<close>

datatype error = TypeError | OutOfGrid | CallStackExceeded

subsection \<open>Compact strings\<close>

text \<open>
  A string is a list of code units below 256.  \<open>s.split(c)\<close> with a one-character
  separator always returns at least one piece; \<open>ps.join(c)\<close> is its inverse on pieces
  free of \<open>c\<close>.
\<close>

fun js_split :: "char \<Rightarrow> string \<Rightarrow> string list" where
  "js_split c [] = [[]]"
| "js_split c (x # xs) =
     (if x = c then [] # js_split c xs
      else (case js_split c xs of p # ps \<Rightarrow> (x # p) # ps | [] \<Rightarrow> [[x]]))"

fun js_join :: "char \<Rightarrow> string list \<Rightarrow> string" where
  "js_join c [] = []"
| "js_join c [p] = p"
| "js_join c (p # q # ps) = p @ c # js_join c (q # ps)"

text \<open>An array element, \<open>undefined\<close> beyond the end (also what destructuring yields).\<close>

definition element :: "'a list \<Rightarrow> nat \<Rightarrow> 'a option" where
  "element xs i = (if i < length xs then Some (xs ! i) else None)"

definition is_digit :: "char \<Rightarrow> bool" where
  "is_digit c = (48 \<le> (of_char c :: nat) \<and> (of_char c :: nat) \<le> 57)"

definition decimal :: "string \<Rightarrow> int" where
  "decimal ds = foldl (\<lambda>n c. 10 * n + (of_char c - 48)) 0 ds"

text \<open>
  The number a run of decimal digits denotes.  Up to \<open>2^53 = 9007199254740992\<close> every
  integer is a double, so the source holds exactly this value; above it the source holds the nearest
  double, which the model does not compute.
\<close>

definition digits_value :: "string \<Rightarrow> bool \<Rightarrow> jsnum" where
  "digits_value ds neg =
     (if decimal ds \<le> 9007199254740992
      then Num (of_int ((if neg then - 1 else 1) * decimal ds))
      else Unmodelled)"

text \<open>
  \<open>Number(s)\<close> on a string of decimal digits (the empty string is 0).  The other
  numeric forms (sign, fraction, exponent, radix prefix, surrounding blanks,
  \<open>Infinity\<close>) and the strings that give \<open>NaN\<close> are not computed.
\<close>

definition js_Number :: "string \<Rightarrow> jsnum" where
  "js_Number s = (if list_all is_digit s then digits_value s False else Unmodelled)"

text \<open>
  \<open>parseInt(s, 10)\<close>: leading blanks are skipped, a sign is read, then the longest run
  of digits, and whatever follows is ignored; no digit gives \<open>NaN\<close>, and so does
  \<open>undefined\<close> (it is parsed as the string \<open>undefined\<close>).  Negative zero is not told
  from zero.
\<close>

definition is_space :: "char \<Rightarrow> bool" where
  "is_space c = ((of_char c :: nat) \<in> {9, 10, 11, 12, 13, 32, 160})"

definition parseInt10 :: "string option \<Rightarrow> jsnum" where
  "parseInt10 str =
     (case str of
        None \<Rightarrow> NaN
      | Some s \<Rightarrow>
          let t = dropWhile is_space s;
              neg = (case t of c # _ \<Rightarrow> c = CHR ''-'' | [] \<Rightarrow> False);
              u = (case t of c # r \<Rightarrow> if c = CHR ''-'' \<or> c = CHR ''+'' then r else t | [] \<Rightarrow> []);
              ds = takeWhile is_digit u
          in if ds = [] then NaN else digits_value ds neg)"

text \<open>
  \<open>width * height\<close>: \<open>undefined\<close> and \<open>NaN\<close> make the product \<open>NaN\<close>; a product of
  integers is exact up to \<open>2^53\<close> and not computed otherwise.
\<close>

fun js_times :: "jsnum \<Rightarrow> jsnum \<Rightarrow> jsnum" where
  "js_times (Num a) (Num b) =
     (if of_int \<lfloor>a\<rfloor> = a \<and> of_int \<lfloor>b\<rfloor> = b \<and> \<bar>a * b\<bar> \<le> 9007199254740992
      then Num (a * b) else Unmodelled)"
| "js_times a b =
     (if a = NaN \<or> a = Undefined \<or> b = NaN \<or> b = Undefined then NaN else Unmodelled)"

text \<open>\<open>const [terrain, countStr] = segStr.split(':')\<close> and the segment built from it.\<close>

definition parse_segment :: "string \<Rightarrow> RLESegment" where
  "parse_segment segStr =
     (let pieces = js_split CHR '':'' segStr
      in \<lparr>seg_terrain = element pieces 0, seg_count = parseInt10 (element pieces 1)\<rparr>)"

text \<open>
  \<open>fromCompactString\<close>.  The one call that could throw is \<open>dimensionsStr.split('x')\<close>,
  on an \<open>undefined\<close> first field.
\<close>

definition fromCompactString :: "string \<Rightarrow> error + CompressedMapData" where
  "fromCompactString compactString =
     (let parts = js_split CHR ''|'' compactString;
          header = take 4 parts;
          dimensionsStr = element header 0;
          seedStr = element header 1;
          th = element header 2;
          ver = element header 3;
          rleString = js_join CHR ''|'' (drop 4 parts)
      in case dimensionsStr of
           None \<Rightarrow> Inl TypeError
         | Some d \<Rightarrow>
             let sizes = map js_Number (js_split CHR ''x'' d);
                 width = (case element sizes 0 of Some n \<Rightarrow> n | None \<Rightarrow> Undefined);
                 height = (case element sizes 1 of Some n \<Rightarrow> n | None \<Rightarrow> Undefined);
                 rowStrs = js_split CHR ''|'' rleString;
                 rle = map (\<lambda>(yy, rowStr).
                              \<lparr>row_segments = map parse_segment (js_split CHR '','' rowStr),
                               row_y = int yy\<rparr>)
                           (zip [0 ..< length rowStrs] rowStrs);
                 sd = parseInt10 seedStr;
                 originalSize = js_times width height;
                 compressedSize = segment_total rle
             in Inr \<lparr>dimensions = (width, height),
                     rleData = rle,
                     metadata = \<lparr>md_theme = th, md_seed = sd, md_version = ver,
                                 md_compressionRatio = ratio_of compressedSize originalSize\<rparr>\<rparr>)"

subsection \<open>The parsed rows in words\<close>

text \<open>
  What the rows of a parsed compact string are, said without the joining and second
  splitting of the source and without \<open>split(':')\<close>: the row fields are the
  \<open>|\<close>-separated fields after the fourth (the one empty field when there is none); a
  piece of a row denotes the segment whose terrain is the text before its first \<open>:\<close>
  and whose count is \<open>parseInt\<close> of the text between its first and its second \<open>:\<close>,
  \<open>NaN\<close> when the piece has no \<open>:\<close>.
\<close>

definition row_fields :: "string \<Rightarrow> string list" where
  "row_fields s =
     (if length (js_split CHR ''|'' s) \<le> 4 then [[]] else drop 4 (js_split CHR ''|'' s))"

definition up_to_colon :: "string \<Rightarrow> string" where
  "up_to_colon t = takeWhile (\<lambda>c. c \<noteq> CHR '':'') t"

definition segment_of :: "string \<Rightarrow> RLESegment" where
  "segment_of piece =
     \<lparr>seg_terrain = Some (up_to_colon piece),
      seg_count = (case dropWhile (\<lambda>c. c \<noteq> CHR '':'') piece of
                     [] \<Rightarrow> NaN
                   | _ # rest \<Rightarrow> parseInt10 (Some (up_to_colon rest)))\<rparr>"

section \<open>Terrain catalogue (terrain.ts)\<close>

text \<open>
  The fields of a \<open>TerrainConfig\<close> that the generators and the scorer read.  The
  display fields (name, glyph, description, category, colour) play no part in them and
  are left out.
\<close>

record TerrainConfig =
  cfg_blocksMovement :: bool
  cfg_blocksLineOfSight :: bool
  cfg_movementCost :: int

definition TERRAIN_TYPES :: "(string \<times> TerrainConfig) list" where
  "TERRAIN_TYPES =
    [(''empty'', \<lparr>cfg_blocksMovement = False, cfg_blocksLineOfSight = False, cfg_movementCost = 1\<rparr>),
     (''wall'', \<lparr>cfg_blocksMovement = True, cfg_blocksLineOfSight = True, cfg_movementCost = 0\<rparr>),
     (''pit'', \<lparr>cfg_blocksMovement = True, cfg_blocksLineOfSight = False, cfg_movementCost = 2\<rparr>),
     (''lava'', \<lparr>cfg_blocksMovement = True, cfg_blocksLineOfSight = False, cfg_movementCost = 0\<rparr>),
     (''water'', \<lparr>cfg_blocksMovement = False, cfg_blocksLineOfSight = False, cfg_movementCost = 2\<rparr>),
     (''difficult'', \<lparr>cfg_blocksMovement = False, cfg_blocksLineOfSight = False, cfg_movementCost = 2\<rparr>),
     (''ruins'', \<lparr>cfg_blocksMovement = False, cfg_blocksLineOfSight = True, cfg_movementCost = 3\<rparr>),
     (''mushrooms'', \<lparr>cfg_blocksMovement = False, cfg_blocksLineOfSight = True, cfg_movementCost = 2\<rparr>),
     (''crystal'', \<lparr>cfg_blocksMovement = True, cfg_blocksLineOfSight = False, cfg_movementCost = 0\<rparr>),
     (''altar'', \<lparr>cfg_blocksMovement = False, cfg_blocksLineOfSight = False, cfg_movementCost = 1\<rparr>),
     (''trees'', \<lparr>cfg_blocksMovement = False, cfg_blocksLineOfSight = True, cfg_movementCost = 2\<rparr>),
     (''stalagmite'', \<lparr>cfg_blocksMovement = False, cfg_blocksLineOfSight = True, cfg_movementCost = 2\<rparr>),
     (''chasm'', \<lparr>cfg_blocksMovement = True, cfg_blocksLineOfSight = False, cfg_movementCost = 0\<rparr>),
     (''bridge'', \<lparr>cfg_blocksMovement = False, cfg_blocksLineOfSight = False, cfg_movementCost = 1\<rparr>),
     (''portal'', \<lparr>cfg_blocksMovement = False, cfg_blocksLineOfSight = False, cfg_movementCost = 1\<rparr>),
     (''rubble'', \<lparr>cfg_blocksMovement = False, cfg_blocksLineOfSight = True, cfg_movementCost = 2\<rparr>),
     (''ice'', \<lparr>cfg_blocksMovement = False, cfg_blocksLineOfSight = False, cfg_movementCost = 2\<rparr>)]"

text \<open>
  \<open>TERRAIN_TYPES[id]\<close> is a property read on an object literal: besides the keys
  above it finds the members every object inherits, which are truthy and have none of
  the configuration fields.
\<close>

definition inherited_keys :: "string list" where
  "inherited_keys =
    [''constructor'', ''hasOwnProperty'', ''isPrototypeOf'', ''propertyIsEnumerable'',
     ''toLocaleString'', ''toString'', ''valueOf'', ''__proto__'',
     ''__defineGetter__'', ''__defineSetter__'', ''__lookupGetter__'', ''__lookupSetter__'']"

datatype found = Config TerrainConfig | Inherited | Missing

definition getTerrain :: "string \<Rightarrow> found" where
  "getTerrain ident =
     (case map_of TERRAIN_TYPES ident of
        Some c \<Rightarrow> Config c
      | None \<Rightarrow> if ident \<in> set inherited_keys then Inherited else Missing)"

text \<open>
  \<open>terrain ? terrain.blocksMovement : true\<close>, read as a condition: the
  \<open>undefined\<close> field of an inherited member is falsy.
\<close>

definition blocksMovement :: "string \<Rightarrow> bool" where
  "blocksMovement terrainId =
     (case getTerrain terrainId of
        Config c \<Rightarrow> cfg_blocksMovement c | Inherited \<Rightarrow> False | Missing \<Rightarrow> True)"

definition blocksLineOfSight :: "string \<Rightarrow> bool" where
  "blocksLineOfSight terrainId =
     (case getTerrain terrainId of
        Config c \<Rightarrow> cfg_blocksLineOfSight c | Inherited \<Rightarrow> False | Missing \<Rightarrow> True)"

text \<open>\<open>terrain ? terrain.movementCost : 0\<close>; \<open>None\<close> is \<open>undefined\<close>.\<close>

definition getMovementCost :: "string \<Rightarrow> int option" where
  "getMovementCost terrainId =
     (case getTerrain terrainId of
        Config c \<Rightarrow> Some (cfg_movementCost c) | Inherited \<Rightarrow> None | Missing \<Rightarrow> Some 0)"

section \<open>Tactical position scorer (encounter-balancer.ts)\<close>

type_synonym grid = "string list list"

text \<open>
  The guard of every neighbour read:
  \<open>nx >= 0 && nx < terrain[0].length && ny >= 0 && ny < terrain.length\<close>.
\<close>

definition in_grid :: "grid \<Rightarrow> int \<Rightarrow> int \<Rightarrow> bool" where
  "in_grid terrain nx ny =
     (nx \<ge> 0 \<and> nx < int (first_row_length terrain) \<and> ny \<ge> 0 \<and> ny < int (length terrain))"

text \<open>
  \<open>terrain[ny][nx]\<close> where row \<open>ny\<close> exists.  A column beyond the end of the row
  reads \<open>undefined\<close>, which the catalogue lookup, the \<open>includes\<close> tests and the
  \<open>switch\<close> of the scorer treat as the string \<open>undefined\<close>.
\<close>

definition cell_id :: "grid \<Rightarrow> int \<Rightarrow> int \<Rightarrow> string" where
  "cell_id terrain nx ny =
     (let row = terrain ! nat ny
      in if 0 \<le> nx \<and> nx < int (length row) then row ! nat nx else ''undefined'')"

definition row_exists :: "grid \<Rightarrow> int \<Rightarrow> bool" where
  "row_exists terrain yy = (0 \<le> yy \<and> yy < int (length terrain))"

text \<open>
  The offsets visited by \<open>for dy = -1..1\<close>, \<open>for dx = -1..1\<close> with
  \<open>if (dx === 0 && dy === 0) continue\<close>, in loop order, as \<open>(dx, dy)\<close>.
\<close>

definition ring :: "(int \<times> int) list" where
  "ring = [(dx, dy). dy \<leftarrow> [-1, 0, 1], dx \<leftarrow> [-1, 0, 1], \<not> (dx = 0 \<and> dy = 0)]"

definition hasTacticalViability :: "grid \<Rightarrow> int \<Rightarrow> int \<Rightarrow> bool" where
  "hasTacticalViability terrain x yy =
     (let viableNeighbors =
        fold (\<lambda>(dx, dy) n.
                let nx = x + dx; ny = yy + dy
                in if in_grid terrain nx ny \<and> \<not> blocksMovement (cell_id terrain nx ny)
                   then n + 1 else n)
             ring (0::nat)
      in viableNeighbors \<ge> 2)"

definition isSuitableForMonster :: "grid \<Rightarrow> int \<Rightarrow> int \<Rightarrow> error + bool" where
  "isSuitableForMonster terrain x yy =
     (if \<not> row_exists terrain yy then Inl TypeError
      else let terrainType = cell_id terrain x yy
           in if blocksMovement terrainType then Inr False
              else if terrainType \<in> set [''pit'', ''lava'', ''water''] then Inr False
              else Inr (hasTacticalViability terrain x yy))"

definition getTerrainTacticalValue :: "string \<Rightarrow> rat" where
  "getTerrainTacticalValue terrainType =
     (if terrainType = ''difficult'' then 8
      else if terrainType = ''ruins'' then 10
      else if terrainType = ''mushrooms'' then 7
      else if terrainType = ''crystal'' then 5
      else if terrainType = ''altar'' then 12
      else if terrainType = ''empty'' then 3
      else 1)"

definition calculateCover :: "grid \<Rightarrow> int \<Rightarrow> int \<Rightarrow> rat" where
  "calculateCover terrain x yy =
     fold (\<lambda>(dx, dy) cover.
             let nx = x + dx; ny = yy + dy
             in if in_grid terrain nx ny
                then let neighborTerrain = cell_id terrain nx ny
                     in if blocksLineOfSight neighborTerrain then cover + 1
                        else if neighborTerrain \<in> set [''ruins'', ''mushrooms'', ''difficult'']
                        then cover + 1 / 2
                        else cover
                else cover)
          ring 0"

definition countApproachableDirections :: "grid \<Rightarrow> int \<Rightarrow> int \<Rightarrow> nat" where
  "countApproachableDirections terrain x yy =
     fold (\<lambda>(dx, dy) n.
             let nx = x + dx; ny = yy + dy
             in if in_grid terrain nx ny \<and> \<not> blocksMovement (cell_id terrain nx ny)
                then n + 1 else n)
          [(-1, 0), (1, 0), (0, -1), (0, 1)] 0"

definition calculateFlanking :: "grid \<Rightarrow> int \<Rightarrow> int \<Rightarrow> nat" where
  "calculateFlanking terrain x yy =
     fold (\<lambda>(dx, dy) flanking.
             let nx = x + dx; ny = yy + dy
             in if in_grid terrain nx ny \<and> \<not> blocksMovement (cell_id terrain nx ny)
                   \<and> countApproachableDirections terrain nx ny \<ge> 3
                then flanking + 1 else flanking)
          [(-1, 0), (1, 0), (0, -1), (0, 1), (-1, -1), (-1, 1), (1, -1), (1, 1)] 0"

text \<open>
  \<open>mobility += Math.max(0, 3 - movementCost)\<close>; \<open>None\<close> is \<open>NaN\<close>, which an
  \<open>undefined\<close> movement cost produces and every later addition keeps.
\<close>

definition calculateMobility :: "grid \<Rightarrow> int \<Rightarrow> int \<Rightarrow> int option" where
  "calculateMobility terrain x yy =
     fold (\<lambda>(dx, dy) mobility.
             let nx = x + dx; ny = yy + dy
             in if in_grid terrain nx ny
                then let neighborTerrain = cell_id terrain nx ny;
                         movementCost = getMovementCost neighborTerrain
                     in if \<not> blocksMovement neighborTerrain
                        then (case (mobility, movementCost) of
                                (Some m, Some c) \<Rightarrow> Some (m + max 0 (3 - c))
                              | _ \<Rightarrow> None)
                        else mobility
                else mobility)
          [(-1, 0), (1, 0), (0, -1), (0, 1)] (Some 0)"

text \<open>\<open>getElevation\<close> is a placeholder that returns \<open>undefined\<close>.\<close>

definition getElevation :: "grid \<Rightarrow> int \<Rightarrow> int \<Rightarrow> rat option" where
  "getElevation terrain x yy = None"

text \<open>The result is \<open>None\<close> when the sum is \<open>NaN\<close>.\<close>

definition calculateTacticalValue :: "grid \<Rightarrow> int \<Rightarrow> int \<Rightarrow> error + rat option" where
  "calculateTacticalValue terrain x yy =
     (if \<not> row_exists terrain yy then Inl TypeError
      else
        let v0 = 0;
            v1 = v0 + getTerrainTacticalValue (cell_id terrain x yy);
            v2 = v1 + calculateCover terrain x yy * 10;
            v3 = v2 + of_nat (calculateFlanking terrain x yy) * 5;
            v4 = (case calculateMobility terrain x yy of
                    Some m \<Rightarrow> Some (v3 + of_int m * 3) | None \<Rightarrow> None);
            v5 = (case v4 of
                    Some v \<Rightarrow> Some (v + (case getElevation terrain x yy of Some e \<Rightarrow> e | None \<Rightarrow> 0) * 2)
                  | None \<Rightarrow> None)
        in Inr v5)"

subsection \<open>The scorer in the words of the specification\<close>

text \<open>
  The cells of a \<open>w\<close> by \<open>h\<close> grid among the 8 neighbours of \<open>(x, y)\<close>, the
  eligibility rule and the cover sum as the specification words them; they are compared
  with the functions above in the properties.
\<close>

definition neighbours8 :: "nat \<Rightarrow> nat \<Rightarrow> int \<Rightarrow> int \<Rightarrow> (int \<times> int) set" where
  "neighbours8 w h x yy =
     {(nx, ny). max \<bar>nx - x\<bar> \<bar>ny - yy\<bar> = 1 \<and> 0 \<le> nx \<and> nx < int w \<and> 0 \<le> ny \<and> ny < int h}"

definition spec_eligible :: "grid \<Rightarrow> nat \<Rightarrow> int \<Rightarrow> int \<Rightarrow> bool" where
  "spec_eligible g w x yy =
     (let t = g ! nat yy ! nat x
      in \<not> blocksMovement t \<and> t \<noteq> ''pit'' \<and> t \<noteq> ''lava'' \<and> t \<noteq> ''water''
         \<and> 2 \<le> card {(nx, ny). (nx, ny) \<in> neighbours8 w (length g) x yy
                        \<and> \<not> blocksMovement (g ! nat ny ! nat nx)})"

definition partial_cover :: "string \<Rightarrow> bool" where
  "partial_cover t =
     (\<not> blocksLineOfSight t \<and> (t = ''ruins'' \<or> t = ''mushrooms'' \<or> t = ''difficult''))"

definition spec_cover :: "grid \<Rightarrow> nat \<Rightarrow> int \<Rightarrow> int \<Rightarrow> rat" where
  "spec_cover g w x yy =
     1 * of_nat (card {(nx, ny). (nx, ny) \<in> neighbours8 w (length g) x yy
                        \<and> blocksLineOfSight (g ! nat ny ! nat nx)})
     + (1 / 2) * of_nat (card {(nx, ny). (nx, ny) \<in> neighbours8 w (length g) x yy
                        \<and> partial_cover (g ! nat ny ! nat nx)})"

text \<open>The positions around \<open>(x, y)\<close> that the offsets of \<open>ring\<close> reach.\<close>

definition around :: "int \<Rightarrow> int \<Rightarrow> (int \<times> int) list" where
  "around x yy = map (\<lambda>(dx, dy). (x + dx, yy + dy)) ring"

text \<open>A 3 by 3 arena used to run the scorer.\<close>

definition demo_grid :: grid where
  "demo_grid =
     [[''wall'', ''wall'', ''wall''],
      [''empty'', ''empty'', ''difficult''],
      [''empty'', ''ruins'', ''empty'']]"

section \<open>Terrain generator (terrain-generator.ts)\<close>

subsection \<open>Configuration\<close>

text \<open>
  The knobs of \<open>parameters\<close> that the generator reads, each absent (\<open>None\<close>) or a
  number: the counts and sizes as integers, the two probabilities as fractions.  The
  sizes of the grid are natural numbers (\<open>Array(height)\<close> accepts nothing else).
\<close>

record Parameters =
  p_minRoomSize :: "int option"
  p_maxRooms :: "int option"
  p_corridorWidth :: "int option"
  p_initialFill :: "rat option"
  p_iterations :: "int option"
  p_birthLimit :: "int option"
  p_deathLimit :: "int option"
  p_steps :: "int option"
  p_branchChance :: "rat option"

record GenerationConfig =
  conf_width :: nat
  conf_height :: nat
  conf_seed :: int
  conf_theme :: string
  conf_algorithm :: string
  conf_parameters :: Parameters

text \<open>
  \<open>this.config.parameters.k as number || d\<close>: the default \<open>d\<close> replaces an absent
  knob and also the falsy number 0.
\<close>

definition param_or :: "'a::zero option \<Rightarrow> 'a \<Rightarrow> 'a" where
  "param_or p d = (case p of None \<Rightarrow> d | Some v \<Rightarrow> if v = 0 then d else v)"

subsection \<open>Loops and cells\<close>

text \<open>\<open>for (let i = lo; i < hi; i++) st = body(i, st)\<close>\<close>

function for_loop :: "int \<Rightarrow> int \<Rightarrow> (int \<Rightarrow> 'st \<Rightarrow> 'st) \<Rightarrow> 'st \<Rightarrow> 'st" where
  "for_loop i hi body st = (if i < hi then for_loop (i + 1) hi body (body i st) else st)"
  by pat_completeness auto
termination
  by (relation "measure (\<lambda>(i, hi, body, st). nat (hi - i))") auto

declare for_loop.simps [simp del]

text \<open>\<open>Array(height).fill(null).map(() => Array(width).fill(t))\<close>\<close>

definition fresh_grid :: "nat \<Rightarrow> nat \<Rightarrow> string \<Rightarrow> grid" where
  "fresh_grid height width t = replicate height (replicate width t)"

text \<open>
  \<open>terrain[y][x] = v\<close> for a cell inside the grid; the generator code below uses it
  only under loop bounds or guards that keep \<open>(x, y)\<close> inside.
\<close>

definition set_cell :: "grid \<Rightarrow> int \<Rightarrow> int \<Rightarrow> string \<Rightarrow> grid" where
  "set_cell terrain x yy v = terrain[nat yy := (terrain ! nat yy)[nat x := v]]"

subsection \<open>Cellular automaton layout\<close>

text \<open>\<open>countNeighbors\<close>: the neighbours inside the grid that are \<open>empty\<close>.\<close>

definition countNeighbors :: "grid \<Rightarrow> int \<Rightarrow> int \<Rightarrow> int" where
  "countNeighbors terrain x yy =
     fold (\<lambda>(dx, dy) n.
             let nx = x + dx; ny = yy + dy
             in if in_grid terrain nx ny \<and> cell_id terrain nx ny = ''empty''
                then n + 1 else n)
          ring 0"

text \<open>
  The first phase of \<open>generateCellular\<close>: the all-\<open>wall\<close> array and the random
  initial fill, one draw per cell in row-major order.
\<close>

definition cellular_fill :: "GenerationConfig \<Rightarrow> int \<Rightarrow> grid \<times> int" where
  "cellular_fill config s0 =
     (let width = conf_width config; height = conf_height config;
          terrain = fresh_grid height width ''wall'';
          initialFill = param_or (p_initialFill (conf_parameters config)) (45 / 100)
      in for_loop 0 (int height) (\<lambda>yy.
           for_loop 0 (int width) (\<lambda>x (terrain, s).
             case random s of (r, s') \<Rightarrow>
               if r < initialFill then (set_cell terrain x yy ''empty'', s') else (terrain, s')))
         (terrain, s0))"

text \<open>
  One pass of the automaton: the rules fill the interior of a new all-\<open>wall\<close> array
  from the old one, then every cell is copied back.
\<close>

definition automaton_rules :: "nat \<Rightarrow> nat \<Rightarrow> int \<Rightarrow> int \<Rightarrow> grid \<Rightarrow> grid" where
  "automaton_rules width height birthLimit deathLimit terrain =
     for_loop 1 (int height - 1) (\<lambda>yy.
       for_loop 1 (int width - 1) (\<lambda>x newTerrain.
         let neighbors = countNeighbors terrain x yy
         in if cell_id terrain x yy = ''empty''
            then (if neighbors < deathLimit then set_cell newTerrain x yy ''wall''
                  else set_cell newTerrain x yy ''empty'')
            else (if neighbors > birthLimit then set_cell newTerrain x yy ''empty''
                  else set_cell newTerrain x yy ''wall'')))
     (fresh_grid height width ''wall'')"

definition copy_back :: "nat \<Rightarrow> nat \<Rightarrow> grid \<Rightarrow> grid \<Rightarrow> grid" where
  "copy_back width height newTerrain terrain =
     for_loop 0 (int height) (\<lambda>yy.
       for_loop 0 (int width) (\<lambda>x terrain. set_cell terrain x yy (cell_id newTerrain x yy)))
     terrain"

definition automaton_pass :: "nat \<Rightarrow> nat \<Rightarrow> int \<Rightarrow> int \<Rightarrow> grid \<Rightarrow> grid" where
  "automaton_pass width height birthLimit deathLimit terrain =
     copy_back width height (automaton_rules width height birthLimit deathLimit terrain) terrain"

text \<open>The second phase: \<open>for (let iter = 0; iter < iterations; iter++)\<close>.\<close>

definition cellular_iterate :: "GenerationConfig \<Rightarrow> grid \<Rightarrow> grid" where
  "cellular_iterate config terrain =
     (let width = conf_width config; height = conf_height config;
          iterations = param_or (p_iterations (conf_parameters config)) 4;
          birthLimit = param_or (p_birthLimit (conf_parameters config)) 4;
          deathLimit = param_or (p_deathLimit (conf_parameters config)) 3
      in for_loop 0 iterations (\<lambda>iter. automaton_pass width height birthLimit deathLimit) terrain)"

text \<open>
  \<open>addCellularFeatures\<close>.  The draw of \<open>this.random() < featureChance\<close> is taken
  only on an \<open>empty\<close> cell, and the draws inside the \<open>switch\<close> follow the
  short-circuit order of the source.
\<close>

definition cellular_feature :: "string \<Rightarrow> grid \<Rightarrow> int \<Rightarrow> int \<Rightarrow> int \<Rightarrow> grid \<times> int" where
  "cellular_feature th terrain x yy s =
     (if th = ''dungeon'' then
        (case random s of (r1, s1) \<Rightarrow>
           if r1 < 3 / 10 then (set_cell terrain x yy ''pit'', s1)
           else (case random s1 of (r2, s2) \<Rightarrow>
                   if r2 < 5 / 10 then (set_cell terrain x yy ''water'', s2)
                   else (set_cell terrain x yy ''difficult'', s2)))
      else if th = ''wilderness'' then (set_cell terrain x yy ''difficult'', s)
      else if th = ''underground'' then
        (case random s of (r1, s1) \<Rightarrow>
           if r1 < 4 / 10 then (set_cell terrain x yy ''crystal'', s1)
           else (case random s1 of (r2, s2) \<Rightarrow>
                   if r2 < 7 / 10 then (set_cell terrain x yy ''water'', s2)
                   else (terrain, s2)))
      else (terrain, s))"

definition addCellularFeatures :: "string \<Rightarrow> grid \<times> int \<Rightarrow> grid \<times> int" where
  "addCellularFeatures th =
     (\<lambda>(terrain0, s0).
       for_loop 1 (int (length terrain0) - 1) (\<lambda>yy.
         for_loop 1 (int (first_row_length terrain0) - 1) (\<lambda>x (terrain, s).
           if cell_id terrain x yy = ''empty''
           then (case random s of (r, s') \<Rightarrow>
                   if r < 1 / 10 then cellular_feature th terrain x yy s' else (terrain, s'))
           else (terrain, s)))
       (terrain0, s0))"

definition generateCellular :: "GenerationConfig \<Rightarrow> int \<Rightarrow> grid \<times> int" where
  "generateCellular config s0 =
     (case cellular_fill config s0 of (terrain, s1) \<Rightarrow>
        addCellularFeatures (conf_theme config) (cellular_iterate config terrain, s1))"

subsection \<open>Shape and border of a grid, in the words of the specification\<close>

text \<open>A grid of \<open>h\<close> rows that all have \<open>w\<close> cells.\<close>

definition dims :: "grid \<Rightarrow> nat \<Rightarrow> nat \<Rightarrow> bool" where
  "dims g h w = (length g = h \<and> list_all (\<lambda>row. length row = w) g)"

text \<open>Every cell on the four edges (\<open>x = 0\<close>, \<open>x = width - 1\<close>, \<open>y = 0\<close>, \<open>y = height - 1\<close>) holds \<open>t\<close>.\<close>

definition border_is :: "string \<Rightarrow> grid \<Rightarrow> bool" where
  "border_is t g =
     (\<forall>i < length g. \<forall>j < length (g ! i).
        (i = 0 \<or> i = length g - 1 \<or> j = 0 \<or> j = length (g ! i) - 1) \<longrightarrow> g ! i ! j = t)"

subsection \<open>Configurations used to run the generator\<close>

text \<open>The configuration that \<open>LevelGenerator\<close> builds (level-generator.ts), with seed 12345.\<close>

definition level_parameters :: Parameters where
  "level_parameters =
     \<lparr>p_minRoomSize = Some 4, p_maxRooms = Some 8, p_corridorWidth = Some 1,
      p_initialFill = Some (45 / 100), p_iterations = Some 4, p_birthLimit = Some 4,
      p_deathLimit = Some 3, p_steps = Some 2000, p_branchChance = Some (1 / 10)\<rparr>"

definition level_config :: GenerationConfig where
  "level_config =
     \<lparr>conf_width = 25, conf_height = 25, conf_seed = 12345, conf_theme = ''dungeon'',
      conf_algorithm = ''cellular'', conf_parameters = level_parameters\<rparr>"

text \<open>A 3 by 3 cellular configuration that asks for 0 iterations.\<close>

definition zero_iterations_config :: GenerationConfig where
  "zero_iterations_config =
     \<lparr>conf_width = 3, conf_height = 3, conf_seed = 1, conf_theme = ''wilderness'',
      conf_algorithm = ''cellular'',
      conf_parameters = \<lparr>p_minRoomSize = None, p_maxRooms = None, p_corridorWidth = None,
        p_initialFill = None, p_iterations = Some 0, p_birthLimit = None, p_deathLimit = None,
        p_steps = None, p_branchChance = None\<rparr>\<rparr>"

subsection \<open>Partition (BSP) layout\<close>

record Room =
  room_x :: int
  room_y :: int
  room_width :: int
  room_height :: int
  room_centerX :: int
  room_centerY :: int

text \<open>\<open>Math.floor(this.random() * k)\<close> for an integer \<open>k\<close>.\<close>

definition draw_floor :: "int \<Rightarrow> int \<Rightarrow> int \<times> int" where
  "draw_floor k s = (case random s of (r, s') \<Rightarrow> (\<lfloor>r * of_int k\<rfloor>, s'))"

text \<open>The room object literal: the centre is computed from the unclamped size.\<close>

definition make_room :: "int \<Rightarrow> int \<Rightarrow> int \<Rightarrow> int \<Rightarrow> Room" where
  "make_room roomX roomY roomWidth roomHeight =
     \<lparr>room_x = roomX, room_y = roomY, room_width = roomWidth, room_height = roomHeight,
      room_centerX = roomX + roomWidth div 2, room_centerY = roomY + roomHeight div 2\<rparr>"

text \<open>
  The base case of \<open>generateRoomsBSP\<close>: four draws, then the two
  \<open>Ensure the room doesn't exceed bounds\<close> assignments.
\<close>

definition leaf_room :: "int \<Rightarrow> int \<Rightarrow> int \<Rightarrow> int \<Rightarrow> int \<Rightarrow> int \<Rightarrow> Room \<times> int" where
  "leaf_room x yy w h minSize s =
     (case draw_floor (w - minSize) s of (f1, s1) \<Rightarrow>
      case draw_floor (h - minSize) s1 of (f2, s2) \<Rightarrow>
        let roomWidth = max minSize (min (w - 2) (f1 + minSize));
            roomHeight = max minSize (min (h - 2) (f2 + minSize))
        in case draw_floor (w - roomWidth - 1) s2 of (f3, s3) \<Rightarrow>
           case draw_floor (h - roomHeight - 1) s3 of (f4, s4) \<Rightarrow>
             let roomX = x + f3 + 1;
                 roomY = yy + f4 + 1;
                 room = make_room roomX roomY roomWidth roomHeight;
                 room = (if roomX + roomWidth > x + w
                         then room\<lparr>room_width := (x + w) - roomX - 1\<rparr> else room);
                 room = (if roomY + roomHeight > yy + h
                         then room\<lparr>room_height := (yy + h) - roomY - 1\<rparr> else room)
             in (room, s4))"

text \<open>
  \<open>generateRoomsBSP\<close>.  The local \<open>rooms\<close> is empty wherever its length is read, so
  \<open>rooms.length >= maxRooms\<close> is \<open>0 >= maxRooms\<close>.  The recursion need not end (for a
  non-positive \<open>minSize\<close> it does not); the value \<open>None\<close> stands for a call that does
  not return.
\<close>

partial_function (option) generateRoomsBSP ::
  "int \<Rightarrow> int \<Rightarrow> int \<Rightarrow> int \<Rightarrow> int \<Rightarrow> int \<Rightarrow> int \<Rightarrow> (Room list \<times> int) option" where
  "generateRoomsBSP x yy w h minSize maxRooms s =
     (if w < minSize * 2 \<or> h < minSize * 2 \<or> 0 \<ge> maxRooms then
        (case leaf_room x yy w h minSize s of (room, s') \<Rightarrow> Some ([room], s'))
      else
        (case random s of (r, s1) \<Rightarrow>
           if r < 1 / 2 \<and> h \<ge> minSize * 2 then
             (case draw_floor (h - minSize * 2) s1 of (f, s2) \<Rightarrow>
                let splitY = f + minSize + yy;
                    topHeight = splitY - yy;
                    bottomHeight = h - topHeight
                in Option.bind (generateRoomsBSP x yy w topHeight minSize (maxRooms - 0) s2)
                     (\<lambda>(topRooms, s3).
                        Option.bind (generateRoomsBSP x splitY w bottomHeight minSize
                                       (maxRooms - 0 - int (length topRooms)) s3)
                          (\<lambda>(bottomRooms, s4). Some (topRooms @ bottomRooms, s4))))
           else if w \<ge> minSize * 2 then
             (case draw_floor (w - minSize * 2) s1 of (f, s2) \<Rightarrow>
                let splitX = f + minSize + x;
                    leftWidth = splitX - x;
                    rightWidth = w - leftWidth
                in Option.bind (generateRoomsBSP x yy leftWidth h minSize (maxRooms - 0) s2)
                     (\<lambda>(leftRooms, s3).
                        Option.bind (generateRoomsBSP splitX yy rightWidth h minSize
                                       (maxRooms - 0 - int (length leftRooms)) s3)
                          (\<lambda>(rightRooms, s4). Some (leftRooms @ rightRooms, s4))))
           else
             Some ([make_room (x + 1) (yy + 1) (max minSize (min (w - 2) (w - 1)))
                      (max minSize (min (h - 2) (h - 1)))], s1)))"

declare generateRoomsBSP.simps [code]

text \<open>
  An unguarded \<open>terrain[y][x] = v\<close>.  A missing row is a \<open>TypeError\<close>.  A column
  outside the row would make the source grow that row or set a stray property on it; the
  model reports \<open>OutOfGrid\<close> for it, so a result \<open>Inr\<close> of the model is always a
  run in which every write hit a cell of the grid.
\<close>

definition write_cell :: "grid \<Rightarrow> int \<Rightarrow> int \<Rightarrow> string \<Rightarrow> error + grid" where
  "write_cell terrain x yy v =
     (if \<not> row_exists terrain yy then Inl TypeError
      else if 0 \<le> x \<and> x < int (length (terrain ! nat yy)) then Inr (set_cell terrain x yy v)
      else Inl OutOfGrid)"

text \<open>Sequencing: once a step has failed, the failure is the result.\<close>

definition and_then :: "error + 'a \<Rightarrow> ('a \<Rightarrow> error + 'b) \<Rightarrow> error + 'b" where
  "and_then r f = (case r of Inl e \<Rightarrow> Inl e | Inr v \<Rightarrow> f v)"

definition createRoom :: "grid \<Rightarrow> Room \<Rightarrow> error + grid" where
  "createRoom terrain0 room =
     for_loop (room_y room) (room_y room + room_height room) (\<lambda>yy.
       for_loop (room_x room) (room_x room + room_width room) (\<lambda>x r.
         and_then r (\<lambda>terrain.
           if x = room_x room \<or> x = room_x room + room_width room - 1
              \<or> yy = room_y room \<or> yy = room_y room + room_height room - 1
           then write_cell terrain x yy ''difficult''
           else write_cell terrain x yy ''empty'')))
     (Inr terrain0)"

text \<open>
  The guarded assignment of \<open>connectRooms\<close>: inside the grid, an \<open>empty\<close> or
  \<open>difficult\<close> cell becomes \<open>empty\<close>.
\<close>

definition carve :: "grid \<Rightarrow> int \<Rightarrow> int \<Rightarrow> grid" where
  "carve terrain x yy =
     (if in_grid terrain x yy
      then (if cell_id terrain x yy = ''empty'' \<or> cell_id terrain x yy = ''difficult''
            then set_cell terrain x yy ''empty'' else terrain)
      else terrain)"

text \<open>One round of the loop of \<open>connectRooms\<close>, for \<open>rooms[i]\<close> and \<open>rooms[i + 1]\<close>.\<close>

definition connect_pair :: "int \<Rightarrow> Room \<Rightarrow> Room \<Rightarrow> grid \<Rightarrow> grid" where
  "connect_pair corridorWidth currentRoom nextRoom terrain0 =
     (let startX = room_centerX currentRoom; startY = room_centerY currentRoom;
          endX = room_centerX nextRoom; endY = room_centerY nextRoom;
          w = int (first_row_length terrain0); h = int (length terrain0);
          safeStartX = max 1 (min (w - 2) startX);
          safeStartY = max 1 (min (h - 2) startY);
          safeEndX = max 1 (min (w - 2) endX);
          safeEndY = max 1 (min (h - 2) endY);
          half = corridorWidth div 2;
          horizontalStart = min safeStartX safeEndX;
          horizontalEnd = max safeStartX safeEndX;
          terrain1 =
            for_loop horizontalStart (horizontalEnd + 1) (\<lambda>x.
              for_loop (safeStartY - half) (safeStartY + half + 1) (\<lambda>cy terrain.
                carve terrain x cy))
            terrain0;
          verticalStart = min safeStartY safeEndY;
          verticalEnd = max safeStartY safeEndY
      in for_loop verticalStart (verticalEnd + 1) (\<lambda>yy.
           for_loop (safeEndX - half) (safeEndX + half + 1) (\<lambda>cx terrain.
             carve terrain cx yy))
         terrain1)"

text \<open>
  \<open>connectRooms\<close>.  With two rooms or more the loop reads \<open>terrain[0].length\<close>, a
  \<open>TypeError\<close> on a grid without rows.
\<close>

definition connectRooms :: "grid \<Rightarrow> Room list \<Rightarrow> int \<Rightarrow> error + grid" where
  "connectRooms terrain rooms corridorWidth =
     (if 0 < int (length rooms) - 1 \<and> terrain = [] then Inl TypeError
      else Inr (for_loop 0 (int (length rooms) - 1) (\<lambda>i.
                  connect_pair corridorWidth (rooms ! nat i) (rooms ! nat (i + 1)))
                terrain))"

definition getThemeFeatures :: "string \<Rightarrow> string list" where
  "getThemeFeatures th =
     (if th = ''dungeon'' then [''pit'', ''water'', ''difficult'', ''altar'']
      else if th = ''wilderness'' then [''difficult'', ''trees'', ''water'', ''pit'']
      else if th = ''underground'' then [''crystal'', ''water'', ''difficult'', ''stalagmite'']
      else if th = ''urban'' then [''rubble'', ''water'', ''pit'', ''difficult'']
      else if th = ''mystical'' then [''crystal'', ''portal'', ''altar'', ''mushrooms'']
      else [''difficult'', ''water''])"

text \<open>
  \<open>features[Math.floor(this.random() * features.length)]\<close>.  An index outside the
  array reads \<open>undefined\<close>, kept as the string \<open>undefined\<close> (see \<open>cell_id\<close>).
\<close>

definition pick :: "string list \<Rightarrow> int \<Rightarrow> string \<times> int" where
  "pick features s =
     (case draw_floor (int (length features)) s of (i, s') \<Rightarrow>
        (if 0 \<le> i \<and> i < int (length features) then features ! nat i else ''undefined'', s'))"

text \<open>
  The feature step shared by \<open>addBSPFeatures\<close>, \<open>varyTemplate\<close> and
  \<open>addCellularFeaturesToBSP\<close> on a cell that exists:
  \<open>if (terrain[y][x] === 'empty' && this.random() < chance) terrain[y][x] = (a picked feature)\<close>.
\<close>

definition sprinkle :: "rat \<Rightarrow> string \<Rightarrow> int \<Rightarrow> int \<Rightarrow> grid \<times> int \<Rightarrow> grid \<times> int" where
  "sprinkle chance th x yy =
     (\<lambda>(terrain, s).
        if cell_id terrain x yy = ''empty''
        then (case random s of (r, s1) \<Rightarrow>
                if r < chance
                then (case pick (getThemeFeatures th) s1 of (feature, s2) \<Rightarrow>
                        (set_cell terrain x yy feature, s2))
                else (terrain, s1))
        else (terrain, s))"

text \<open>
  The body of \<open>rooms.forEach\<close> in \<open>addBSPFeatures\<close>.  The read \<open>terrain[y][x]\<close> is
  unguarded: a missing row is a \<open>TypeError\<close>.
\<close>

definition room_features :: "string \<Rightarrow> Room \<Rightarrow> grid \<times> int \<Rightarrow> error + grid \<times> int" where
  "room_features th room st0 =
     (let interiorWidth = room_width room - 2;
          interiorHeight = room_height room - 2
      in if interiorWidth < 2 \<or> interiorHeight < 2 then Inr st0
         else
           for_loop (room_y room + 1) (room_y room + room_height room - 1) (\<lambda>yy.
             for_loop (room_x room + 1) (room_x room + room_width room - 1) (\<lambda>x r.
               and_then r (\<lambda>(terrain, s).
                 if \<not> row_exists terrain yy then Inl TypeError
                 else Inr (sprinkle (15 / 100) th x yy (terrain, s)))))
           (Inr st0))"

text \<open>\<open>countNeighborsOfType\<close>\<close>

definition countNeighborsOfType :: "grid \<Rightarrow> int \<Rightarrow> int \<Rightarrow> string \<Rightarrow> int" where
  "countNeighborsOfType terrain x yy ty =
     fold (\<lambda>(dx, dy) n.
             let nx = x + dx; ny = yy + dy
             in if in_grid terrain nx ny \<and> cell_id terrain nx ny = ty
                then n + 1 else n)
          ring 0"

definition addCorridorFeatures :: "grid \<times> int \<Rightarrow> grid \<times> int" where
  "addCorridorFeatures =
     (\<lambda>(terrain0, s0).
       for_loop 1 (int (length terrain0) - 1) (\<lambda>yy.
         for_loop 1 (int (first_row_length terrain0) - 1) (\<lambda>x (terrain, s).
           if cell_id terrain x yy = ''empty''
           then (case random s of (r, s1) \<Rightarrow>
                   if r < 5 / 100
                   then (if countNeighborsOfType terrain x yy ''difficult'' \<ge> 4
                         then (case pick [''pit'', ''difficult'', ''water''] s1 of (feature, s2) \<Rightarrow>
                                 (set_cell terrain x yy feature, s2))
                         else (terrain, s1))
                   else (terrain, s1))
           else (terrain, s)))
       (terrain0, s0))"

definition addBSPFeatures :: "string \<Rightarrow> Room list \<Rightarrow> grid \<times> int \<Rightarrow> error + grid \<times> int" where
  "addBSPFeatures th rooms st0 =
     and_then (fold (\<lambda>room r. and_then r (room_features th room)) rooms (Inr st0))
         (\<lambda>st. Inr (addCorridorFeatures st))"

text \<open>The initial array of \<open>generateBSP\<close>: \<open>empty\<close>, with \<open>difficult\<close> on the four edges.\<close>

definition bsp_canvas :: "nat \<Rightarrow> nat \<Rightarrow> grid" where
  "bsp_canvas width height =
     for_loop 0 (int height) (\<lambda>yy.
       for_loop 0 (int width) (\<lambda>x terrain.
         if x = 0 \<or> x = int width - 1 \<or> yy = 0 \<or> yy = int height - 1
         then set_cell terrain x yy ''difficult'' else terrain))
     (fresh_grid height width ''empty'')"

definition generateBSP :: "GenerationConfig \<Rightarrow> int \<Rightarrow> error + grid \<times> int" where
  "generateBSP config s0 =
     (let width = conf_width config; height = conf_height config;
          terrain = bsp_canvas width height;
          minRoomSize = param_or (p_minRoomSize (conf_parameters config)) 4;
          maxRooms = param_or (p_maxRooms (conf_parameters config)) 8;
          corridorWidth = param_or (p_corridorWidth (conf_parameters config)) 1
      in case generateRoomsBSP 1 1 (int width - 2) (int height - 2) minRoomSize maxRooms s0 of
           None \<Rightarrow> Inl CallStackExceeded
         | Some (rooms, s1) \<Rightarrow>
             and_then (fold (\<lambda>room r. and_then r (\<lambda>terrain. createRoom terrain room)) rooms (Inr terrain))
               (\<lambda>terrain.
                  and_then (connectRooms terrain rooms corridorWidth)
                    (\<lambda>terrain. addBSPFeatures (conf_theme config) rooms (terrain, s1))))"

subsection \<open>Random-walk layout\<close>

text \<open>The \<open>switch (direction)\<close> of both walks.\<close>

definition walk_step :: "int \<Rightarrow> int \<Rightarrow> int \<Rightarrow> int \<times> int" where
  "walk_step direction x yy =
     (if direction = 0 then (x + 1, yy)
      else if direction = 1 then (x - 1, yy)
      else if direction = 2 then (x, yy + 1)
      else if direction = 3 then (x, yy - 1)
      else (x, yy))"

definition drunkardBranch :: "grid \<Rightarrow> int \<Rightarrow> int \<Rightarrow> int \<Rightarrow> int \<Rightarrow> grid \<times> int" where
  "drunkardBranch terrain0 x0 y0 steps s0 =
     (case for_loop 0 steps (\<lambda>step (terrain, x, yy, s).
             case draw_floor 4 s of (direction, s1) \<Rightarrow>
             case walk_step direction x yy of (newX, newY) \<Rightarrow>
               if in_grid terrain newX newY
               then (set_cell terrain newX newY ''empty'', newX, newY, s1)
               else (terrain, x, yy, s1))
           (terrain0, x0, y0, s0)
      of (terrain, x, yy, s) \<Rightarrow> (terrain, s))"

definition generateDrunkardWalk :: "GenerationConfig \<Rightarrow> int \<Rightarrow> error + grid \<times> int" where
  "generateDrunkardWalk config s0 =
     (let width = int (conf_width config); height = int (conf_height config);
          terrain = fresh_grid (conf_height config) (conf_width config) ''wall'';
          steps = param_or (p_steps (conf_parameters config)) 2000;
          branchChance = param_or (p_branchChance (conf_parameters config)) (1 / 10);
          x0 = width div 2;
          y0 = height div 2
      in and_then (write_cell terrain x0 y0 ''empty'')
           (\<lambda>terrain.
              case for_loop 0 steps (\<lambda>step (terrain, x, yy, s).
                     case draw_floor 4 s of (direction, s1) \<Rightarrow>
                     case walk_step direction x yy of (newX, newY) \<Rightarrow>
                       if newX \<ge> 0 \<and> newX < width \<and> newY \<ge> 0 \<and> newY < height
                       then (case random s1 of (r, s2) \<Rightarrow>
                               if r < branchChance
                               then (case draw_floor 50 s2 of (f, s3) \<Rightarrow>
                                     case drunkardBranch (set_cell terrain newX newY ''empty'')
                                            newX newY (f + 10) s3 of
                                       (terrain', s4) \<Rightarrow> (terrain', newX, newY, s4))
                               else (set_cell terrain newX newY ''empty'', newX, newY, s2))
                       else (terrain, x, yy, s1))
                   (terrain, x0, y0, s0)
              of (terrain, x, yy, s) \<Rightarrow> Inr (terrain, s)))"

subsection \<open>Template layout\<close>

text \<open>
  \<open>createBaseTemplate\<close>: the guarded main chamber, then the unguarded wall rows and
  wall columns.
\<close>

definition createBaseTemplate :: "GenerationConfig \<Rightarrow> error + grid" where
  "createBaseTemplate config =
     (let width = int (conf_width config); height = int (conf_height config);
          terrain0 = fresh_grid (conf_height config) (conf_width config) ''empty'';
          centerX = width div 2;
          centerY = height div 2;
          terrain1 =
            for_loop (centerY - 3) (centerY + 3 + 1) (\<lambda>yy.
              for_loop (centerX - 4) (centerX + 4 + 1) (\<lambda>x terrain.
                if x \<ge> 0 \<and> x < width \<and> yy \<ge> 0 \<and> yy < height
                then set_cell terrain x yy ''empty'' else terrain))
            terrain0;
          r2 =
            for_loop 0 width (\<lambda>x r.
              and_then r (\<lambda>terrain.
                and_then (write_cell terrain x 0 ''wall'')
                  (\<lambda>terrain. write_cell terrain x (height - 1) ''wall'')))
            (Inr terrain1)
      in for_loop 0 height (\<lambda>yy r.
           and_then r (\<lambda>terrain.
             and_then (write_cell terrain 0 yy ''wall'')
               (\<lambda>terrain. write_cell terrain (width - 1) yy ''wall'')))
         r2)"

text \<open>
  The interior pass of \<open>varyTemplate\<close> and of \<open>addCellularFeaturesToBSP\<close>, which
  differ in the chance only.
\<close>

definition interior_pass :: "rat \<Rightarrow> string \<Rightarrow> grid \<times> int \<Rightarrow> grid \<times> int" where
  "interior_pass chance th =
     (\<lambda>(terrain0, s0).
       for_loop 1 (int (length terrain0) - 1) (\<lambda>yy.
         for_loop 1 (int (first_row_length terrain0) - 1) (\<lambda>x. sprinkle chance th x yy))
       (terrain0, s0))"

definition varyTemplate :: "string \<Rightarrow> grid \<times> int \<Rightarrow> grid \<times> int" where
  "varyTemplate th = interior_pass (2 / 10) th"

definition generateTemplate :: "GenerationConfig \<Rightarrow> int \<Rightarrow> error + grid \<times> int" where
  "generateTemplate config s0 =
     and_then (createBaseTemplate config)
       (\<lambda>baseTemplate. Inr (varyTemplate (conf_theme config) (baseTemplate, s0)))"

subsection \<open>Composite layout and dispatch\<close>

definition addCellularFeaturesToBSP :: "string \<Rightarrow> grid \<times> int \<Rightarrow> grid \<times> int" where
  "addCellularFeaturesToBSP th = interior_pass (5 / 100) th"

definition generateMixed :: "GenerationConfig \<Rightarrow> int \<Rightarrow> error + grid \<times> int" where
  "generateMixed config s0 =
     and_then (generateBSP config s0)
       (\<lambda>st. Inr (addCellularFeaturesToBSP (conf_theme config) st))"

text \<open>
  \<open>generate()\<close> on a generator whose closure variable holds \<open>s\<close>: the grid (or the
  failure) and the new content of the closure variable.  A failure leaves no useful
  state behind, so none is returned with it.
\<close>

definition generate :: "GenerationConfig \<Rightarrow> int \<Rightarrow> error + grid \<times> int" where
  "generate config s =
     (if conf_algorithm config = ''bsp'' then generateBSP config s
      else if conf_algorithm config = ''cellular'' then Inr (generateCellular config s)
      else if conf_algorithm config = ''drunkard'' then generateDrunkardWalk config s
      else if conf_algorithm config = ''template'' then generateTemplate config s
      else if conf_algorithm config = ''mixed'' then generateMixed config s
      else generateBSP config s)"

text \<open>
  A 6 by 6 partition configuration with seed 7 and rooms of size 2 at least, for a given
  algorithm name and corridor width.
\<close>

definition small_config :: "string \<Rightarrow> int \<Rightarrow> GenerationConfig" where
  "small_config alg cw =
     \<lparr>conf_width = 6, conf_height = 6, conf_seed = 7, conf_theme = ''dungeon'',
      conf_algorithm = alg,
      conf_parameters = \<lparr>p_minRoomSize = Some 2, p_maxRooms = None, p_corridorWidth = Some cw,
        p_initialFill = None, p_iterations = None, p_birthLimit = None, p_deathLimit = None,
        p_steps = None, p_branchChance = None\<rparr>\<rparr>"

text \<open>Three grids that the run of that configuration with corridor width 4 goes through.\<close>

definition small_canvas_grid :: grid where
  "small_canvas_grid =
     [[''difficult'', ''difficult'', ''difficult'', ''difficult'', ''difficult'', ''difficult''],
      [''difficult'', ''empty'', ''empty'', ''empty'', ''empty'', ''difficult''],
      [''difficult'', ''empty'', ''empty'', ''empty'', ''empty'', ''difficult''],
      [''difficult'', ''empty'', ''empty'', ''empty'', ''empty'', ''difficult''],
      [''difficult'', ''empty'', ''empty'', ''empty'', ''empty'', ''difficult''],
      [''difficult'', ''difficult'', ''difficult'', ''difficult'', ''difficult'', ''difficult'']]"

definition small_rooms_grid :: grid where
  "small_rooms_grid =
     [[''difficult'', ''difficult'', ''difficult'', ''difficult'', ''difficult'', ''difficult''],
      [''difficult'', ''empty'', ''difficult'', ''difficult'', ''empty'', ''difficult''],
      [''difficult'', ''empty'', ''difficult'', ''difficult'', ''empty'', ''difficult''],
      [''difficult'', ''empty'', ''difficult'', ''difficult'', ''empty'', ''difficult''],
      [''difficult'', ''empty'', ''difficult'', ''difficult'', ''empty'', ''difficult''],
      [''difficult'', ''difficult'', ''difficult'', ''difficult'', ''difficult'', ''difficult'']]"

definition small_carved_grid :: grid where
  "small_carved_grid =
     [[''difficult'', ''difficult'', ''difficult'', ''empty'', ''difficult'', ''difficult''],
      [''difficult'', ''empty'', ''difficult'', ''empty'', ''empty'', ''difficult''],
      [''difficult'', ''empty'', ''empty'', ''empty'', ''empty'', ''empty''],
      [''difficult'', ''empty'', ''empty'', ''empty'', ''empty'', ''empty''],
      [''difficult'', ''empty'', ''empty'', ''empty'', ''empty'', ''empty''],
      [''difficult'', ''difficult'', ''difficult'', ''difficult'', ''difficult'', ''difficult'']]"

text \<open>The two rooms of that run.\<close>

definition small_room_list :: "Room list" where
  "small_room_list =
     [\<lparr>room_x = 2, room_y = 1, room_width = 2, room_height = 2,
        room_centerX = 3, room_centerY = 2\<rparr>,
      \<lparr>room_x = 2, room_y = 3, room_width = 2, room_height = 2,
        room_centerX = 3, room_centerY = 4\<rparr>]"

subsection \<open>Generator objects\<close>

text \<open>
  A \<open>TerrainGenerator\<close> object holds its configuration and the closure variable \<open>s\<close> of
  its own \<open>random\<close> function.  The objects of a program live in a store, under the
  references that \<open>new\<close> hands out one after the other.
\<close>

record TerrainGenerator =
  tg_config :: GenerationConfig
  tg_s :: int

record store =
  objects :: "nat \<Rightarrow> TerrainGenerator option"
  next_ref :: nat

text \<open>\<open>new TerrainGenerator(config)\<close>: the constructor seeds a fresh closure variable.\<close>

definition new_TerrainGenerator :: "GenerationConfig \<Rightarrow> store \<Rightarrow> nat \<times> store" where
  "new_TerrainGenerator config st =
     (next_ref st,
      st\<lparr>objects := (objects st)(next_ref st \<mapsto>
              \<lparr>tg_config = config, tg_s = seededRandom (conf_seed config)\<rparr>),
         next_ref := Suc (next_ref st)\<rparr>)"

text \<open>
  \<open>g.generate()\<close> on the object under a reference: the grid or the failure, and the
  store in which the closure variable of that object has moved on.  (After a failure the
  draws already taken are not tracked: the model leaves the variable as it was.)
\<close>

definition call_generate :: "nat \<Rightarrow> store \<Rightarrow> (error + grid) \<times> store" where
  "call_generate ref st =
     (case objects st ref of
        None \<Rightarrow> (Inl TypeError, st)
      | Some g \<Rightarrow>
          (case generate (tg_config g) (tg_s g) of
             Inl e \<Rightarrow> (Inl e, st)
           | Inr (terrain, s') \<Rightarrow>
               (Inr terrain, st\<lparr>objects := (objects st)(ref \<mapsto> g\<lparr>tg_s := s'\<rparr>)\<rparr>)))"

section \<open>Properties of the seeded stream\<close>

lemma lcg_m_pos: "0 < lcg_m"
  by (simp add: lcg_m_def)

lemma js_rem_nonneg: "0 \<le> a \<Longrightarrow> 0 < b \<Longrightarrow> js_rem a b = a mod b"
  by (simp add: js_rem_def)

lemma seededRandom_range: "0 \<le> seed \<Longrightarrow> 0 \<le> seededRandom seed \<and> seededRandom seed < lcg_m"
  using lcg_m_pos by (simp add: seededRandom_def js_rem_nonneg)

lemma random_nonneg_state:
  assumes "0 \<le> s"
  shows "snd (random s) = (s * lcg_a) mod lcg_m"
    and "fst (random s) = of_int ((s * lcg_a) mod lcg_m) / of_int lcg_m"
    and "0 \<le> snd (random s)" and "snd (random s) < lcg_m"
    and "0 \<le> fst (random s)" and "fst (random s) < 1"
proof -
  have a: "0 \<le> s * lcg_a" using assms by (simp add: lcg_a_def)
  show s: "snd (random s) = (s * lcg_a) mod lcg_m"
    using a lcg_m_pos by (simp add: random_def Let_def js_rem_nonneg)
  show f: "fst (random s) = of_int ((s * lcg_a) mod lcg_m) / of_int lcg_m"
    using a lcg_m_pos by (simp add: random_def Let_def js_rem_nonneg)
  show "0 \<le> snd (random s)" "snd (random s) < lcg_m"
    using lcg_m_pos by (simp_all add: s)
  have lt: "(s * lcg_a) mod lcg_m < lcg_m" and ge: "0 \<le> (s * lcg_a) mod lcg_m"
    using lcg_m_pos by simp_all
  show "0 \<le> fst (random s)"
    using ge lcg_m_pos by (simp add: f)
  show "fst (random s) < 1"
    using lt lcg_m_pos by (simp add: f)
qed

text \<open>
  The product \<open>s * a\<close> formed by a call stays below \<open>2^53\<close>, so the double
  arithmetic of the source is exact on it.
\<close>

lemma product_exact_in_double:
  assumes "0 \<le> s" "s < lcg_m"
  shows "s * lcg_a < 2 ^ 53"
proof -
  have "s * lcg_a \<le> (lcg_m - 1) * lcg_a"
    using assms by (intro mult_right_mono) (simp_all add: lcg_a_def)
  also have "\<dots> < 2 ^ 53" by (simp add: lcg_m_def lcg_a_def)
  finally show ?thesis .
qed

lemma state_after_closed:
  "0 \<le> s \<Longrightarrow> s < lcg_m \<Longrightarrow> state_after n s = (s * lcg_a ^ n) mod lcg_m"
proof (induction n arbitrary: s)
  case 0
  then show ?case by simp
next
  case (Suc n)
  have "state_after (Suc n) s = state_after n ((s * lcg_a) mod lcg_m)"
    using Suc.prems by (simp add: random_nonneg_state(1))
  also have "\<dots> = (((s * lcg_a) mod lcg_m) * lcg_a ^ n) mod lcg_m"
    using lcg_m_pos by (intro Suc.IH) simp_all
  also have "\<dots> = (s * lcg_a ^ Suc n) mod lcg_m"
    by (simp add: mod_mult_left_eq mult.assoc)
  finally show ?case .
qed

lemma draws_length: "length (draws n s) = n"
  by (induction n arbitrary: s) (auto split: prod.splits)

lemma draws_nth:
  "k < n \<Longrightarrow> draws n s ! k = fst (random (state_after k s))"
proof (induction n arbitrary: s k)
  case 0
  then show ?case by simp
next
  case (Suc n)
  show ?case
  proof (cases k)
    case 0
    then show ?thesis by (simp split: prod.splits)
  next
    case (Suc j)
    with Suc.prems have "j < n" by simp
    from Suc.IH [OF this] Suc show ?thesis by (simp split: prod.splits)
  qed
qed

lemma state_after_nonneg: "0 \<le> s \<Longrightarrow> 0 \<le> state_after n s"
  by (induction n arbitrary: s) (simp_all add: random_nonneg_state(3))

text \<open>
  Claim C4.  For a non-negative integer seed the closure variable starts at
  \<open>seed mod M\<close> with \<open>M = 2^35 - 31\<close>; a call replaces \<open>s\<close> by \<open>(s * A) mod M\<close> with
  \<open>A = 185852\<close> and returns \<open>s / M\<close>, which lies in \<open>[0, 1)\<close>; the k-th value drawn is
  \<open>((seed * A^(k+1)) mod M) / M\<close>, so it depends on the seed only, and two generators
  whose seeds agree draw identical sequences.
\<close>

theorem seeded_stream_recurrence:
  assumes "0 \<le> seed"
  shows "lcg_a = 185852 \<and> lcg_m = 2 ^ 35 - 31
    \<and> seededRandom seed = seed mod lcg_m
    \<and> (\<forall>s. 0 \<le> s \<longrightarrow> random s = (of_int ((s * lcg_a) mod lcg_m) / of_int lcg_m, (s * lcg_a) mod lcg_m)
          \<and> 0 \<le> fst (random s) \<and> fst (random s) < 1)
    \<and> (\<forall>n k. k < n \<longrightarrow>
          draws n (seededRandom seed) ! k = of_int ((seed * lcg_a ^ Suc k) mod lcg_m) / of_int lcg_m)
    \<and> (\<forall>seed' n. seed' = seed \<longrightarrow> draws n (seededRandom seed') = draws n (seededRandom seed))"
proof -
  have init: "seededRandom seed = seed mod lcg_m"
    using assms lcg_m_pos by (simp add: seededRandom_def js_rem_nonneg)
  have step: "random s = (of_int ((s * lcg_a) mod lcg_m) / of_int lcg_m, (s * lcg_a) mod lcg_m)
      \<and> 0 \<le> fst (random s) \<and> fst (random s) < 1" if "0 \<le> s" for s
    using random_nonneg_state [OF that] by (metis prod.collapse)
  have nth: "draws n (seededRandom seed) ! k = of_int ((seed * lcg_a ^ Suc k) mod lcg_m) / of_int lcg_m"
    if "k < n" for n k
  proof -
    have r: "0 \<le> seededRandom seed" "seededRandom seed < lcg_m"
      using seededRandom_range [OF assms] by simp_all
    have "draws n (seededRandom seed) ! k = fst (random (state_after k (seededRandom seed)))"
      using that by (rule draws_nth)
    also have "\<dots> = of_int ((state_after k (seededRandom seed) * lcg_a) mod lcg_m) / of_int lcg_m"
      using state_after_nonneg [OF r(1)] by (rule random_nonneg_state(2))
    also have "state_after k (seededRandom seed) = (seed mod lcg_m * lcg_a ^ k) mod lcg_m"
      using r by (simp add: state_after_closed init)
    also have "((seed mod lcg_m * lcg_a ^ k) mod lcg_m * lcg_a) mod lcg_m = (seed * lcg_a ^ Suc k) mod lcg_m"
      by (metis mod_mult_left_eq mult.assoc power_Suc2)
    finally show ?thesis .
  qed
  show ?thesis
    using init step nth by (simp add: lcg_a_def lcg_m_def)
qed

theorem seeded_stream_recurrence_witness:
  "(0::int) \<le> 12345 \<and> seededRandom 12345 = 12345
    \<and> random 12345 = (2294342940 / 34359738337, 2294342940)
    \<and> draws 1 (seededRandom 12345) ! 0 = 2294342940 / 34359738337"
proof -
  have h: "(0::int) \<le> 12345" by simp
  have k: "(0::nat) < 1" by simp
  from seeded_stream_recurrence [OF h]
  have a: "seededRandom 12345 = 12345 mod lcg_m"
    and b: "\<forall>s. 0 \<le> s \<longrightarrow> random s = (of_int ((s * lcg_a) mod lcg_m) / of_int lcg_m, (s * lcg_a) mod lcg_m)
          \<and> 0 \<le> fst (random s) \<and> fst (random s) < 1"
    and c: "\<forall>n k. k < n \<longrightarrow>
          draws n (seededRandom 12345) ! k = of_int ((12345 * lcg_a ^ Suc k) mod lcg_m) / of_int lcg_m"
    by blast+
  from b h have b': "random 12345 = (of_int ((12345 * lcg_a) mod lcg_m) / of_int lcg_m, (12345 * lcg_a) mod lcg_m)"
    by blast
  from c k have c': "draws 1 (seededRandom 12345) ! 0 = of_int ((12345 * lcg_a ^ Suc 0) mod lcg_m) / of_int lcg_m"
    by blast
  show ?thesis
    using a b' c' by (simp add: lcg_a_def lcg_m_def)
qed

section \<open>Properties of the run-length codec\<close>

lemma rle_scan_length_le:
  "length (fst (rle_scan row w x cur cnt segs)) \<le> length segs + (w - x)"
proof (induction row w x cur cnt segs rule: rle_scan.induct)
  case (1 row width x currentTerrain cnt segs)
  show ?case
  proof (cases "x < width")
    case False
    then show ?thesis by (simp add: rle_scan.simps [of row width x])
  next
    case True
    show ?thesis
    proof (cases "row_get row x = currentTerrain")
      case eq: True
      from "1.IH"(1) [OF True eq] True eq show ?thesis
        by (simp add: rle_scan.simps [of row width x])
    next
      case ne: False
      from "1.IH"(2) [OF True ne] True ne show ?thesis
        by (simp add: rle_scan.simps [of row width x])
    qed
  qed
qed

lemma rle_scan_length_less:
  "1 \<le> x \<Longrightarrow> cur = row_get row (x - 1) \<Longrightarrow> x \<le> i \<Longrightarrow> i < w
    \<Longrightarrow> row_get row i = row_get row (i - 1)
    \<Longrightarrow> length (fst (rle_scan row w x cur cnt segs)) < length segs + (w - x)"
proof (induction row w x cur cnt segs rule: rle_scan.induct)
  case (1 row width x currentTerrain cnt segs)
  from "1.prems" have xw: "x < width" by simp
  show ?case
  proof (cases "x = i")
    case True
    with "1.prems" have eq: "row_get row x = currentTerrain" by simp
    have "length (fst (rle_scan row width (x + 1) currentTerrain (cnt + 1) segs)) \<le> length segs + (width - (x + 1))"
      by (rule rle_scan_length_le)
    with xw eq show ?thesis
      by (simp add: rle_scan.simps [of row width x])
  next
    case False
    with "1.prems" have lt: "x + 1 \<le> i" by simp
    show ?thesis
    proof (cases "row_get row x = currentTerrain")
      case eq: True
      have "length (fst (rle_scan row width (x + 1) currentTerrain (cnt + 1) segs)) < length segs + (width - (x + 1))"
        using "1.prems" lt eq by (intro "1.IH"(1) [OF xw eq]) simp_all
      with xw eq show ?thesis
        by (simp add: rle_scan.simps [of row width x])
    next
      case ne: False
      have "length (fst (rle_scan row width (x + 1) (row_get row x) 1
                (segs @ [\<lparr>seg_terrain = currentTerrain, seg_count = Num (of_int cnt)\<rparr>])))
            < length (segs @ [\<lparr>seg_terrain = currentTerrain, seg_count = Num (of_int cnt)\<rparr>]) + (width - (x + 1))"
        using "1.prems" lt by (intro "1.IH"(2) [OF xw ne]) simp_all
      with xw ne show ?thesis
        by (simp add: rle_scan.simps [of row width x])
    qed
  qed
qed

lemma compress_row_length_le:
  "0 < w \<Longrightarrow> length (row_segments (compress_row w yy row)) \<le> w"
  using rle_scan_length_le [of row w 1 "row_get row 0" 1 "[]"]
  by (auto simp: compress_row_def split: prod.splits)

lemma compress_row_length_less:
  assumes "Suc i < w" "row_get row i = row_get row (Suc i)"
  shows "length (row_segments (compress_row w yy row)) < w"
proof -
  have "length (fst (rle_scan row w 1 (row_get row 0) 1 [])) < length ([]::RLESegment list) + (w - 1)"
    using assms by (intro rle_scan_length_less [where i = "Suc i"]) simp_all
  then show ?thesis
    by (auto simp: compress_row_def split: prod.splits)
qed

lemma segment_total_sum:
  "segment_total rows = sum_list (map (\<lambda>row. length (row_segments row)) rows)"
proof -
  have "foldl (\<lambda>sum row. sum + length (row_segments row)) a rows
      = a + sum_list (map (\<lambda>row. length (row_segments row)) rows)" for a
    by (induction rows arbitrary: a) simp_all
  from this [of 0] show ?thesis by (simp add: segment_total_def)
qed

lemma sum_list_bounded:
  "(\<forall>x \<in> set xs. f x \<le> (w::nat)) \<Longrightarrow> sum_list (map f xs) \<le> length xs * w"
  by (induction xs) auto

lemma sum_list_strict:
  "(\<forall>x \<in> set xs. f x \<le> (w::nat)) \<Longrightarrow> (\<exists>x \<in> set xs. f x < w)
    \<Longrightarrow> sum_list (map f xs) < length xs * w"
proof (induction xs)
  case Nil
  then show ?case by simp
next
  case (Cons a xs)
  have le: "sum_list (map f xs) \<le> length xs * w"
    using Cons.prems(1) by (intro sum_list_bounded) simp
  show ?case
  proof (cases "f a < w")
    case True
    with le show ?thesis by simp
  next
    case False
    with Cons.prems have "\<exists>x \<in> set xs. f x < w" "f a \<le> w" by auto
    with Cons.IH Cons.prems(1) have "sum_list (map f xs) < length xs * w" by simp
    with \<open>f a \<le> w\<close> show ?thesis by simp
  qed
qed


lemma compressMap_rows:
  "rleData (compressMap g sd th)
     = map (\<lambda>(yy, row). compress_row (first_row_length g) (int yy) row) (zip [0 ..< length g] g)"
  by (simp add: compressMap_def Let_def)

lemma compressMap_ratio:
  "md_compressionRatio (metadata (compressMap g sd th))
     = ratio_of (segment_total (rleData (compressMap g sd th))) (Num (of_nat (length g * first_row_length g)))"
  by (simp add: compressMap_def Let_def)

text \<open>
  Claim C9.  For every rectangular grid in which some row holds two consecutive equal
  terrain ids, the \<open>compressionRatio\<close> computed by \<open>compressMap\<close>, that is
  \<open>(1 - totalSegmentCount / (width * height)) * 100\<close>, is a finite number strictly
  greater than 0.
\<close>

theorem compression_ratio_positive:
  assumes rect: "\<forall>row \<in> set g. length row = w"
    and run: "\<exists>row \<in> set g. \<exists>i. Suc i < w \<and> row ! i = row ! Suc i"
  shows "\<exists>r. md_compressionRatio (metadata (compressMap g sd th)) = Num r \<and> 0 < r"
proof -
  from run obtain row i where row: "row \<in> set g" and i: "Suc i < w" and eq: "row ! i = row ! Suc i"
    by blast
  from row have ne: "g \<noteq> []" by auto
  then have fw: "first_row_length g = w"
    using rect by (cases g) (simp_all add: first_row_length_def)
  from i have wpos: "0 < w" by simp
  let ?f = "\<lambda>r. length (row_segments r)"
  let ?rows = "rleData (compressMap g sd th)"
  have rows: "?rows = map (\<lambda>(yy, row). compress_row w (int yy) row) (zip [0 ..< length g] g)"
    by (simp add: compressMap_rows fw)
  have len: "length ?rows = length g" by (simp add: rows)
  have all_le: "\<forall>r \<in> set ?rows. ?f r \<le> w"
    using wpos by (auto simp: rows compress_row_length_le)
  from row obtain k where k: "k < length g" and gk: "g ! k = row"
    by (auto simp: in_set_conv_nth)
  have rg: "row_get row i = row_get row (Suc i)"
    using rect row i eq by (simp add: row_get_def)
  have "?rows ! k = compress_row w (int k) row"
    using k gk by (simp add: rows)
  moreover have "?f (compress_row w (int k) row) < w"
    using i rg by (rule compress_row_length_less)
  ultimately have "\<exists>r \<in> set ?rows. ?f r < w"
    using k len by (metis nth_mem)
  with all_le have "sum_list (map ?f ?rows) < length ?rows * w"
    by (rule sum_list_strict)
  then have lt: "segment_total ?rows < length g * w"
    by (simp add: segment_total_sum len)
  have pos: "0 < length g * w" using ne wpos by simp
  define q :: rat where "q = of_nat (segment_total ?rows) / of_nat (length g * w)"
  have "(of_nat (segment_total ?rows) :: rat) < of_nat (length g * w)"
    using lt by (simp only: of_nat_less_iff)
  then have "q < 1"
    using pos unfolding q_def by (simp add: divide_less_eq)
  then have "0 < (1 - q) * 100"
    by simp
  moreover have "md_compressionRatio (metadata (compressMap g sd th)) = Num ((1 - q) * 100)"
    using pos unfolding q_def by (simp add: compressMap_ratio fw)
  ultimately show ?thesis by blast
qed

theorem compression_ratio_positive_witness:
  "map length [[''wall'', ''wall''], [''empty'', ''wall'']] = [2, 2]
    \<and> (\<exists>row \<in> set [[''wall'', ''wall''], [''empty'', ''wall'']]. \<exists>i. Suc i < 2 \<and> row ! i = row ! Suc i)
    \<and> (\<exists>r. md_compressionRatio (metadata (compressMap [[''wall'', ''wall''], [''empty'', ''wall'']]
            (Num 12345) ''dungeon'')) = Num r \<and> 0 < r)"
proof -
  have rect: "\<forall>row \<in> set [[''wall'', ''wall''], [''empty'', ''wall'']]. length row = 2"
    by simp
  have "Suc 0 < 2 \<and> [''wall'', ''wall''] ! 0 = [''wall'', ''wall''] ! Suc 0"
    by simp
  then have run: "\<exists>row \<in> set [[''wall'', ''wall''], [''empty'', ''wall'']]. \<exists>i. Suc i < 2 \<and> row ! i = row ! Suc i"
    by (intro bexI [where x = "[''wall'', ''wall'']"] exI [where x = 0]) simp_all
  have "map length [[''wall'', ''wall''], [''empty'', ''wall'']] = [2, 2]"
    by simp
  with compression_ratio_positive [OF rect run] run show ?thesis
    by blast
qed

lemma decompressMap_empty: "decompressMap cd = []"
  by (simp add: decompressMap_def destructured_height_def decompress_rows.simps [of Undefined])



lemma rle_scan_done: "\<not> x < w \<Longrightarrow> rle_scan row w x cur cnt segs = (segs, cur, cnt)"
  by (subst rle_scan.simps) simp

lemma rle_scan_same:
  "x < w \<Longrightarrow> row_get row x = cur
    \<Longrightarrow> rle_scan row w x cur cnt segs = rle_scan row w (x + 1) cur (cnt + 1) segs"
  by (subst rle_scan.simps) simp

lemma rle_scan_change:
  "x < w \<Longrightarrow> row_get row x \<noteq> cur
    \<Longrightarrow> rle_scan row w x cur cnt segs
        = rle_scan row w (x + 1) (row_get row x) 1
            (segs @ [\<lparr>seg_terrain = cur, seg_count = Num (of_int cnt)\<rparr>])"
  by (subst rle_scan.simps) simp

lemma rle_scan_expand:
  "1 \<le> x \<Longrightarrow> x \<le> w \<Longrightarrow> w = length row \<Longrightarrow> 0 < cnt
    \<Longrightarrow> concat (map expand_seg segs) @ replicate (nat cnt) cur = map Some (take x row)
    \<Longrightarrow> rle_scan row w x cur cnt segs = (segs', cur', cnt')
    \<Longrightarrow> concat (map expand_seg segs') @ replicate (nat cnt') cur' = map Some row"
proof (induction row w x cur cnt segs rule: rle_scan.induct)
  case (1 row width x currentTerrain cnt segs)
  show ?case
  proof (cases "x < width")
    case False
    with "1.prems" have x: "take x row = row" by simp
    from "1.prems"(6) False have "segs' = segs" "cur' = currentTerrain" "cnt' = cnt"
      by (simp_all add: rle_scan_done)
    with "1.prems"(5) x show ?thesis by simp
  next
    case True
    then have tk: "take (x + 1) row = take x row @ [row ! x]"
      using "1.prems" by (simp add: take_Suc_conv_app_nth)
    have rg: "row_get row x = Some (row ! x)"
      using True "1.prems" by (simp add: row_get_def)
    have xs: "1 \<le> x + 1" "x + 1 \<le> width" using True by simp_all
    show ?thesis
    proof (cases "row_get row x = currentTerrain")
      case eq: True
      have "nat (cnt + 1) = Suc (nat cnt)" using "1.prems"(4) by simp
      then have rep: "replicate (nat (cnt + 1)) currentTerrain = replicate (nat cnt) currentTerrain @ [currentTerrain]"
        by (simp only: replicate_Suc replicate_append_same)
      have a: "concat (map expand_seg segs) @ replicate (nat (cnt + 1)) currentTerrain = map Some (take (x + 1) row)"
        unfolding rep tk using "1.prems"(5) eq rg by simp
      have b: "rle_scan row width (x + 1) currentTerrain (cnt + 1) segs = (segs', cur', cnt')"
        using "1.prems"(6) True eq by (simp add: rle_scan_same)
      have c: "0 < cnt + 1" using "1.prems"(4) by simp
      show ?thesis
        by (rule "1.IH"(1) [OF True eq xs "1.prems"(3) c a b])
    next
      case ne: False
      let ?segs = "segs @ [\<lparr>seg_terrain = currentTerrain, seg_count = Num (of_int cnt)\<rparr>]"
      have e: "expand_seg \<lparr>seg_terrain = currentTerrain, seg_count = Num (of_int cnt)\<rparr> = replicate (nat cnt) currentTerrain"
        by (simp add: expand_seg_def)
      have a: "concat (map expand_seg ?segs) @ replicate (nat 1) (row_get row x) = map Some (take (x + 1) row)"
        unfolding tk using "1.prems"(5) rg by (simp add: e)
      have b: "rle_scan row width (x + 1) (row_get row x) 1 ?segs = (segs', cur', cnt')"
        using "1.prems"(6) True ne by (simp add: rle_scan_change)
      show ?thesis
        by (rule "1.IH"(2) [OF True ne xs "1.prems"(3) _ a b]) simp
    qed
  qed
qed

lemma rle_scan_count_pos:
  "0 < cnt \<Longrightarrow> rle_scan row w x cur cnt segs = (segs', cur', cnt') \<Longrightarrow> 0 < cnt'"
proof (induction row w x cur cnt segs rule: rle_scan.induct)
  case (1 row width x currentTerrain cnt segs)
  show ?case
  proof (cases "x < width")
    case False
    with "1.prems" show ?thesis by (simp add: rle_scan_done)
  next
    case True
    show ?thesis
    proof (cases "row_get row x = currentTerrain")
      case eq: True
      from "1.prems" True eq show ?thesis
        by (intro "1.IH"(1) [OF True eq]) (simp_all add: rle_scan_same)
    next
      case ne: False
      from "1.prems" True ne show ?thesis
        by (intro "1.IH"(2) [OF True ne]) (simp_all add: rle_scan_change)
    qed
  qed
qed

lemma expand_compress_row:
  assumes "0 < length row"
  shows "expand_row (Some (compress_row (length row) yy row)) = map Some row"
proof -
  obtain segs' cur' cnt' where sc: "rle_scan row (length row) 1 (row_get row 0) 1 [] = (segs', cur', cnt')"
    by (cases "rle_scan row (length row) 1 (row_get row 0) 1 []") auto
  have hd: "take (Suc 0) row = [row ! 0]" using assms by (cases row) simp_all
  have "concat (map expand_seg segs') @ replicate (nat cnt') cur' = map Some row"
  proof (rule rle_scan_expand [OF _ _ _ _ _ sc])
    show "concat (map expand_seg []) @ replicate (nat 1) (row_get row 0) = map Some (take 1 row)"
      using assms by (simp add: row_get_def hd)
  qed (use assms in \<open>simp_all add: Suc_le_eq\<close>)
  moreover have "0 < cnt'" using rle_scan_count_pos [OF _ sc] by simp
  ultimately show ?thesis
    using sc by (simp add: expand_row_def compress_row_def expand_seg_def [abs_def])
qed


text \<open>
  The run-length rows themselves encode the grid: expanding every row that
  \<open>compressMap\<close> stores gives the grid back.
\<close>

lemma rows_encode_grid:
  assumes rect: "\<forall>row \<in> set g. length row = w" and wpos: "0 < w"
  shows "map (\<lambda>r. expand_row (Some r)) (rleData (compressMap g sd th)) = map (map Some) g"
proof (rule nth_equalityI)
  show "length (map (\<lambda>r. expand_row (Some r)) (rleData (compressMap g sd th))) = length (map (map Some) g)"
    by (simp add: compressMap_rows)
next
  fix k assume "k < length (map (\<lambda>r. expand_row (Some r)) (rleData (compressMap g sd th)))"
  then have k: "k < length g" by (simp add: compressMap_rows)
  then have ne: "g \<noteq> []" by auto
  then have fw: "first_row_length g = w"
    using rect by (cases g) (simp_all add: first_row_length_def)
  have lk: "length (g ! k) = w" using rect k by simp
  have "expand_row (Some (compress_row (length (g ! k)) (int k) (g ! k))) = map Some (g ! k)"
    using wpos lk by (intro expand_compress_row) simp
  then show "map (\<lambda>r. expand_row (Some r)) (rleData (compressMap g sd th)) ! k = map (map Some) g ! k"
    using k by (simp add: compressMap_rows fw lk)
qed

text \<open>
  Claim C1 (round trip).  The code does not satisfy it: \<open>decompressMap\<close> reads
  \<open>width\<close> and \<open>height\<close> from the top level of its argument, where they are
  \<open>undefined\<close>, so its row loop is never entered and it returns the empty array for
  every argument.  At the 2 x 2 grid below the result is \<open>[]\<close>, not the grid.
\<close>

theorem decompressMap_loses_grid:
  "decompressMap (compressMap [[''wall'', ''wall''], [''empty'', ''wall'']] (Num 12345) ''dungeon'') = []
    \<and> decompressMap (compressMap [[''wall'', ''wall''], [''empty'', ''wall'']] (Num 12345) ''dungeon'')
        \<noteq> map (map Some) [[''wall'', ''wall''], [''empty'', ''wall'']]"
  by (simp add: decompressMap_def destructured_height_def decompress_rows.simps [of Undefined])

subsection \<open>Parsing compact strings\<close>

lemma js_split_nonempty: "js_split c s \<noteq> []"
  by (induction s) (auto split: list.splits)

lemma js_split_free: "p \<in> set (js_split c s) \<Longrightarrow> c \<notin> set p"
  by (induction s arbitrary: p) (auto split: list.splits if_splits)

lemma js_split_append:
  "c \<notin> set p \<Longrightarrow> js_split c (p @ c # s) = p # js_split c s"
  by (induction p) (auto split: list.splits)

lemma js_split_single: "c \<notin> set p \<Longrightarrow> js_split c p = [p]"
  by (induction p) (auto split: list.splits)

lemma js_split_join:
  "ps \<noteq> [] \<Longrightarrow> (\<forall>p \<in> set ps. c \<notin> set p) \<Longrightarrow> js_split c (js_join c ps) = ps"
  by (induction c ps rule: js_join.induct) (simp_all add: js_split_single js_split_append)


lemma resplit_length:
  "length (js_split c (js_join c (drop n (js_split c s)))) = max 1 (length (js_split c s) - n)"
proof (cases "drop n (js_split c s) = []")
  case True
  then show ?thesis by simp
next
  case False
  have "\<forall>p \<in> set (drop n (js_split c s)). c \<notin> set p"
    using js_split_free [of _ c s] by (auto dest: in_set_dropD)
  with False have "js_split c (js_join c (drop n (js_split c s))) = drop n (js_split c s)"
    by (rule js_split_join)
  with False show ?thesis by simp
qed

lemma row_numbers:
  "map row_y (map (\<lambda>(yy, rowStr). \<lparr>row_segments = f rowStr, row_y = int yy\<rparr>) (zip [0 ..< length rs] rs))
     = map int [0 ..< length rs]"
  by (rule nth_equalityI) simp_all

lemma js_split_unfold:
  "js_split c s = takeWhile (\<lambda>x. x \<noteq> c) s
      # (case dropWhile (\<lambda>x. x \<noteq> c) s of [] \<Rightarrow> [] | _ # rest \<Rightarrow> js_split c rest)"
  by (induction s) (auto split: list.splits)

lemma js_split_hd: "hd (js_split c s) = takeWhile (\<lambda>x. x \<noteq> c) s"
  by (subst js_split_unfold) simp

lemma parse_segment_in_words: "parse_segment piece = segment_of piece"
proof -
  let ?c = "CHR '':''"
  have e0: "element (js_split ?c piece) 0 = Some (up_to_colon piece)"
    by (subst js_split_unfold) (simp add: element_def up_to_colon_def)
  have e1: "parseInt10 (element (js_split ?c piece) 1)
      = (case dropWhile (\<lambda>x. x \<noteq> ?c) piece of [] \<Rightarrow> NaN
         | _ # rest \<Rightarrow> parseInt10 (Some (up_to_colon rest)))"
  proof (cases "dropWhile (\<lambda>x. x \<noteq> ?c) piece")
    case Nil
    have "js_split ?c piece = [takeWhile (\<lambda>x. x \<noteq> ?c) piece]"
      by (subst js_split_unfold) (simp only: Nil list.case)
    then have "element (js_split ?c piece) 1 = None"
      by (simp add: element_def)
    then show ?thesis
      by (simp only: Nil list.case) (simp add: parseInt10_def)
  next
    case (Cons a rest)
    have "js_split ?c piece = takeWhile (\<lambda>x. x \<noteq> ?c) piece # js_split ?c rest"
      by (subst js_split_unfold) (simp only: Cons list.case)
    moreover have "js_split ?c rest \<noteq> []" by (rule js_split_nonempty)
    ultimately have "element (js_split ?c piece) 1 = Some (hd (js_split ?c rest))"
      by (cases "js_split ?c rest") (simp_all add: element_def)
    then show ?thesis
      by (simp only: Cons list.case) (simp add: js_split_hd up_to_colon_def)
  qed
  show ?thesis
    by (simp only: parse_segment_def Let_def e0 e1 segment_of_def)
qed

lemma resplit_fields:
  "js_split CHR ''|'' (js_join CHR ''|'' (drop 4 (js_split CHR ''|'' s))) = row_fields s"
proof (cases "drop 4 (js_split CHR ''|'' s) = []")
  case True
  then show ?thesis by (simp add: row_fields_def)
next
  case False
  have "\<forall>p \<in> set (drop 4 (js_split CHR ''|'' s)). CHR ''|'' \<notin> set p"
    using js_split_free [of _ "CHR ''|''" s] by (auto dest: in_set_dropD)
  with False have "js_split CHR ''|'' (js_join CHR ''|'' (drop 4 (js_split CHR ''|'' s)))
      = drop 4 (js_split CHR ''|'' s)"
    by (rule js_split_join)
  with False show ?thesis by (simp add: row_fields_def)
qed

text \<open>
  Claim C2, as the code has it.  \<open>fromCompactString\<close> makes no check of the segment
  counts against the declared width nor of the number of rows against the declared
  height: for every input string it returns a value.  The value holds one run-length row
  for each \<open>|\<close>-separated field after the fourth (one row, for the empty field, when there
  is none), numbered 0, 1, 2, ... in order; a row holds one segment for each
  \<open>,\<close>-separated piece of its field, in order, whose terrain is the text of the piece
  before its first \<open>:\<close> and whose count is \<open>parseInt\<close> (base 10) of the text between its
  first and its second \<open>:\<close>, \<open>NaN\<close> when the piece has no \<open>:\<close>.  Nothing is dropped
  and nothing is added to make a row fit the declared sizes.
\<close>

theorem fromCompactString_never_rejects:
  "\<exists>cd. fromCompactString s = Inr cd
     \<and> length (rleData cd) = max 1 (length (js_split CHR ''|'' s) - 4)
     \<and> map row_y (rleData cd) = map int [0 ..< length (rleData cd)]
     \<and> rleData cd
         = map (\<lambda>(yy, field).
                  \<lparr>row_segments = map segment_of (js_split CHR '','' field), row_y = int yy\<rparr>)
               (zip [0 ..< length (row_fields s)] (row_fields s))"
proof -
  obtain p ps where parts: "js_split CHR ''|'' s = p # ps"
    using js_split_nonempty [of "CHR ''|''" s] by (cases "js_split CHR ''|'' s") auto
  have first: "element (take 4 (js_split CHR ''|'' s)) 0 = Some p"
    by (simp add: parts element_def)
  let ?rle = "map (\<lambda>(yy, field).
                \<lparr>row_segments = map segment_of (js_split CHR '','' field), row_y = int yy\<rparr>)
              (zip [0 ..< length (row_fields s)] (row_fields s))"
  have seg: "parse_segment = segment_of"
    by (rule ext) (rule parse_segment_in_words)
  obtain cd where cd: "fromCompactString s = Inr cd" and rle: "rleData cd = ?rle"
    by (simp add: fromCompactString_def Let_def first resplit_fields seg)
  have "length (row_fields s) = max 1 (length (js_split CHR ''|'' s) - 4)"
    by (simp add: row_fields_def)
  then have len: "length ?rle = max 1 (length (js_split CHR ''|'' s) - 4)"
    by simp
  have num: "map row_y ?rle = map int [0 ..< length ?rle]"
    using row_numbers [of "\<lambda>field. map segment_of (js_split CHR '','' field)" "row_fields s"] by simp
  from cd rle len num show ?thesis by metis
qed


text \<open>
  Claim C2 as stated fails: the string below declares a 3 by 2 grid and carries a single
  row whose counts sum to 2, and it is parsed into a value.
\<close>

theorem fromCompactString_accepts_mismatch:
  "fromCompactString ''3x2|1|dungeon|1.0.0|wall:2''
     = Inr \<lparr>dimensions = (Num 3, Num 2),
            rleData = [\<lparr>row_segments = [\<lparr>seg_terrain = Some ''wall'', seg_count = Num 2\<rparr>], row_y = 0\<rparr>],
            metadata = \<lparr>md_theme = Some ''dungeon'', md_seed = Num 1, md_version = Some ''1.0.0'',
                        md_compressionRatio = Num (250 / 3)\<rparr>\<rparr>"
  by code_simp

section \<open>Properties of the tactical position scorer\<close>

lemma ring_eq: "ring = [(-1, -1), (0, -1), (1, -1), (-1, 0), (1, 0), (-1, 1), (0, 1), (1, 1)]"
  by (simp add: ring_def)

lemma around_distinct: "distinct (around x yy)"
  by (simp add: around_def ring_eq)

lemma around_set: "set (around x yy) = {(nx, ny). max \<bar>nx - x\<bar> \<bar>ny - yy\<bar> = 1}"
proof (rule set_eqI)
  fix p :: "int \<times> int"
  obtain nx ny where p: "p = (nx, ny)" by (cases p)
  have "(nx, ny) \<in> set (around x yy) \<longleftrightarrow> max \<bar>nx - x\<bar> \<bar>ny - yy\<bar> = 1"
    unfolding around_def ring_eq by (simp add: max_def) presburger
  then show "p \<in> set (around x yy) \<longleftrightarrow> p \<in> {(nx, ny). max \<bar>nx - x\<bar> \<bar>ny - yy\<bar> = 1}"
    by (simp add: p)
qed

lemma fold_count:
  "fold (\<lambda>p n. if Q p then n + 1 else n) ps (a::nat) = a + length (filter Q ps)"
  by (induction ps arbitrary: a) simp_all

lemma count_card: "distinct ps \<Longrightarrow> length (filter Q ps) = card {p \<in> set ps. Q p}"
proof -
  assume "distinct ps"
  then have "distinct (filter Q ps)" by simp
  then have "card (set (filter Q ps)) = length (filter Q ps)" by (rule distinct_card)
  then show ?thesis by simp
qed

lemma fold_cover:
  "fold (\<lambda>p c. if A p then c + 1 else if B p then c + 1 / 2 else c) ps (a::rat)
     = a + of_nat (length (filter A ps)) + of_nat (length (filter (\<lambda>p. \<not> A p \<and> B p) ps)) / 2"
  by (induction ps arbitrary: a) (simp_all add: field_simps)


lemma rect_first_row: "\<forall>row \<in> set g. length row = w \<Longrightarrow> g \<noteq> [] \<Longrightarrow> first_row_length g = w"
  by (cases g) (simp_all add: first_row_length_def)

lemma in_grid_rect:
  "\<forall>row \<in> set g. length row = w \<Longrightarrow> g \<noteq> []
    \<Longrightarrow> in_grid g nx ny \<longleftrightarrow> 0 \<le> nx \<and> nx < int w \<and> 0 \<le> ny \<and> ny < int (length g)"
  using rect_first_row [of g w] by (simp add: in_grid_def)

lemma cell_id_rect:
  "\<forall>row \<in> set g. length row = w \<Longrightarrow> 0 \<le> nx \<Longrightarrow> nx < int w \<Longrightarrow> 0 \<le> ny \<Longrightarrow> ny < int (length g)
    \<Longrightarrow> cell_id g nx ny = g ! nat ny ! nat nx"
  by (simp add: cell_id_def Let_def)

lemma ring_fold_around:
  "fold (\<lambda>(dx, dy). F (x + dx) (yy + dy)) ring a = fold (\<lambda>(nx, ny). F nx ny) (around x yy) a"
  by (simp add: around_def fold_map comp_def case_prod_unfold)

lemma neighbour_sets:
  assumes rect: "\<forall>row \<in> set g. length row = w" and ne: "g \<noteq> []"
  shows "{p \<in> set (around x yy). case p of (nx, ny) \<Rightarrow> in_grid g nx ny \<and> P (cell_id g nx ny)}
       = {(nx, ny). (nx, ny) \<in> neighbours8 w (length g) x yy \<and> P (g ! nat ny ! nat nx)}"
  using cell_id_rect [OF rect]
  by (auto simp: around_set neighbours8_def in_grid_rect [OF rect ne])

lemma viability_card:
  assumes rect: "\<forall>row \<in> set g. length row = w" and ne: "g \<noteq> []"
  shows "hasTacticalViability g x yy
     \<longleftrightarrow> 2 \<le> card {(nx, ny). (nx, ny) \<in> neighbours8 w (length g) x yy
                        \<and> \<not> blocksMovement (g ! nat ny ! nat nx)}"
proof -
  let ?Q = "\<lambda>p. case p of (nx, ny) \<Rightarrow> in_grid g nx ny \<and> \<not> blocksMovement (cell_id g nx ny)"
  have "fold (\<lambda>(dx, dy) n.
                let nx = x + dx; ny = yy + dy
                in if in_grid g nx ny \<and> \<not> blocksMovement (cell_id g nx ny)
                   then n + 1 else n) ring (0::nat)
      = fold (\<lambda>p n. if ?Q p then n + 1 else n) (around x yy) 0"
    using ring_fold_around [of "\<lambda>nx ny n. if in_grid g nx ny \<and> \<not> blocksMovement (cell_id g nx ny) then n + 1 else n" x yy "0::nat"]
    by (simp add: Let_def case_prod_unfold)
  also have "\<dots> = card {p \<in> set (around x yy). ?Q p}"
    by (simp add: fold_count count_card [OF around_distinct])
  also have "{p \<in> set (around x yy). ?Q p}
      = {(nx, ny). (nx, ny) \<in> neighbours8 w (length g) x yy \<and> \<not> blocksMovement (g ! nat ny ! nat nx)}"
    using neighbour_sets [OF rect ne, of x yy "\<lambda>t. \<not> blocksMovement t"] .
  finally show ?thesis
    by (simp add: hasTacticalViability_def)
qed

lemma cover_card:
  assumes rect: "\<forall>row \<in> set g. length row = w" and ne: "g \<noteq> []"
  shows "calculateCover g x yy = spec_cover g w x yy"
proof -
  let ?A = "\<lambda>p. case p of (nx, ny) \<Rightarrow> in_grid g nx ny \<and> blocksLineOfSight (cell_id g nx ny)"
  let ?B = "\<lambda>p. case p of (nx, ny) \<Rightarrow> in_grid g nx ny
              \<and> cell_id g nx ny \<in> set [''ruins'', ''mushrooms'', ''difficult'']"
  let ?C = "\<lambda>p. case p of (nx, ny) \<Rightarrow> in_grid g nx ny \<and> partial_cover (cell_id g nx ny)"
  let ?F = "\<lambda>nx ny c. if in_grid g nx ny
                then let neighborTerrain = cell_id g nx ny
                     in if blocksLineOfSight neighborTerrain then c + 1
                        else if neighborTerrain \<in> set [''ruins'', ''mushrooms'', ''difficult'']
                        then c + 1 / 2
                        else c
                else (c::rat)"
  have f: "(\<lambda>(nx, ny). ?F nx ny) = (\<lambda>p c. if ?A p then c + 1 else if ?B p then c + 1 / 2 else c)"
    by (auto simp: fun_eq_iff Let_def)
  have c: "(\<lambda>p. \<not> ?A p \<and> ?B p) = ?C"
    by (auto simp: partial_cover_def fun_eq_iff)
  have a: "length (filter ?A (around x yy))
      = card {(nx, ny). (nx, ny) \<in> neighbours8 w (length g) x yy \<and> blocksLineOfSight (g ! nat ny ! nat nx)}"
    using neighbour_sets [OF rect ne, of x yy blocksLineOfSight]
    by (simp add: count_card [OF around_distinct])
  have b: "length (filter ?C (around x yy))
      = card {(nx, ny). (nx, ny) \<in> neighbours8 w (length g) x yy \<and> partial_cover (g ! nat ny ! nat nx)}"
    using neighbour_sets [OF rect ne, of x yy partial_cover]
    by (simp add: count_card [OF around_distinct])
  have "calculateCover g x yy = fold (\<lambda>(dx, dy). ?F (x + dx) (yy + dy)) ring 0"
    by (simp add: calculateCover_def Let_def)
  also have "\<dots> = fold (\<lambda>(nx, ny). ?F nx ny) (around x yy) 0"
    by (rule ring_fold_around)
  also have "\<dots> = fold (\<lambda>p c. if ?A p then c + 1 else if ?B p then c + 1 / 2 else c) (around x yy) 0"
    by (simp only: f)
  also have "\<dots> = of_nat (length (filter ?A (around x yy)))
      + of_nat (length (filter (\<lambda>p. \<not> ?A p \<and> ?B p) (around x yy))) / 2"
    by (simp add: fold_cover)
  also have "\<dots> = of_nat (length (filter ?A (around x yy))) + of_nat (length (filter ?C (around x yy))) / 2"
    by (simp only: c)
  finally show ?thesis
    by (simp add: spec_cover_def a b)
qed


text \<open>
  Claim C6.  In a rectangular grid, a cell \<open>(x, y)\<close> is eligible for tactical
  placement exactly when its terrain does not block movement, is none of pit, lava and
  water, and at least 2 of its neighbours (the up to 8 adjacent cells of the grid) do not
  block movement.  For an eligible cell the tactical value is
  \<open>terrainBaseValue + 10 * cover + 5 * flanking + 3 * mobility + 2 * elevation\<close>, where
  cover counts 1 for every neighbour that blocks line of sight and 1/2 for every
  partial-cover neighbour (one of ruins, mushrooms, difficult that does not block line of
  sight), and the elevation of the placeholder \<open>getElevation\<close> is 0.  (The value is
  \<open>NaN\<close>, here \<open>None\<close>, exactly when the mobility is.)
\<close>

theorem tactical_eligibility_and_value:
  assumes rect: "\<forall>row \<in> set g. length row = w"
    and yy: "0 \<le> yy" "yy < int (length g)"
    and x: "0 \<le> x" "x < int w"
  shows "isSuitableForMonster g x yy = Inr (spec_eligible g w x yy)
    \<and> (spec_eligible g w x yy \<longrightarrow>
          calculateTacticalValue g x yy
            = Inr (map_option
                (\<lambda>mobility. getTerrainTacticalValue (g ! nat yy ! nat x)
                     + 10 * spec_cover g w x yy
                     + 5 * of_nat (calculateFlanking g x yy)
                     + 3 * of_int mobility
                     + 2 * 0)
                (calculateMobility g x yy)))"
proof -
  from yy have ne: "g \<noteq> []" by auto
  have re: "row_exists g yy" using yy by (simp add: row_exists_def)
  have cell: "cell_id g x yy = g ! nat yy ! nat x"
    using cell_id_rect [OF rect x yy] .
  have elig: "isSuitableForMonster g x yy = Inr (spec_eligible g w x yy)"
    using viability_card [OF rect ne, of x yy]
    by (simp add: isSuitableForMonster_def re cell spec_eligible_def Let_def)
  have val: "calculateTacticalValue g x yy
      = Inr (map_option
                (\<lambda>mobility. getTerrainTacticalValue (g ! nat yy ! nat x)
                     + 10 * spec_cover g w x yy
                     + 5 * of_nat (calculateFlanking g x yy)
                     + 3 * of_int mobility
                     + 2 * 0)
                (calculateMobility g x yy))"
    by (simp add: calculateTacticalValue_def re cell Let_def getElevation_def
        cover_card [OF rect ne] split: option.splits)
  from elig val show ?thesis by simp
qed

theorem tactical_eligibility_and_value_witness:
  "length demo_grid = 3 \<and> map length demo_grid = [3, 3, 3]
    \<and> (0::int) \<le> 1 \<and> (1::int) < int (length demo_grid) \<and> (1::int) < int 3
    \<and> spec_eligible demo_grid 3 1 1
    \<and> calculateTacticalValue demo_grid 1 1 = Inr (Some 62)
    \<and> spec_cover demo_grid 3 1 1 = 9 / 2"
proof -
  have rect: "\<forall>row \<in> set demo_grid. length row = 3"
    by (simp add: demo_grid_def)
  have y0: "(0::int) \<le> 1" and y1: "(1::int) < int (length demo_grid)" and x1: "(1::int) < int 3"
    by (simp_all add: demo_grid_def)
  have s: "isSuitableForMonster demo_grid 1 1 = Inr True"
    by code_simp
  have v: "calculateTacticalValue demo_grid 1 1 = Inr (Some 62)"
    by code_simp
  have b: "getTerrainTacticalValue (demo_grid ! nat 1 ! nat 1) = 3"
    by code_simp
  have f: "calculateFlanking demo_grid 1 1 = 1"
    by code_simp
  have m: "calculateMobility demo_grid 1 1 = Some 3"
    by code_simp
  from tactical_eligibility_and_value [OF rect y0 y1 y0 x1]
  have e: "Inr True = (Inr (spec_eligible demo_grid 3 1 1) :: error + bool)"
    and c: "spec_eligible demo_grid 3 1 1 \<longrightarrow>
          calculateTacticalValue demo_grid 1 1
            = Inr (map_option
                (\<lambda>mobility. getTerrainTacticalValue (demo_grid ! nat 1 ! nat 1)
                     + 10 * spec_cover demo_grid 3 1 1
                     + 5 * of_nat (calculateFlanking demo_grid 1 1)
                     + 3 * of_int mobility
                     + 2 * 0)
                (calculateMobility demo_grid 1 1))"
    by (simp_all add: s)
  from e have el: "spec_eligible demo_grid 3 1 1" by simp
  from c el have "calculateTacticalValue demo_grid 1 1
            = Inr (map_option
                (\<lambda>mobility. getTerrainTacticalValue (demo_grid ! nat 1 ! nat 1)
                     + 10 * spec_cover demo_grid 3 1 1
                     + 5 * of_nat (calculateFlanking demo_grid 1 1)
                     + 3 * of_int mobility
                     + 2 * 0)
                (calculateMobility demo_grid 1 1))"
    by blast
  then have "62 = 3 + 10 * spec_cover demo_grid 3 1 1 + 5 * of_nat 1 + 3 * of_int 3 + 2 * 0"
    unfolding v b f m by simp
  then have "spec_cover demo_grid 3 1 1 = 9 / 2" by simp
  moreover have "length demo_grid = 3" "map length demo_grid = [3, 3, 3]"
    by (simp_all add: demo_grid_def)
  ultimately show ?thesis using y0 y1 x1 el v by blast
qed

section \<open>Properties of the cellular automaton layout\<close>

lemma for_loop_step: "i < hi \<Longrightarrow> for_loop i hi body st = for_loop (i + 1) hi body (body i st)"
  by (subst for_loop.simps) simp

lemma for_loop_done: "\<not> i < hi \<Longrightarrow> for_loop i hi body st = st"
  by (subst for_loop.simps) simp

lemma for_loop_inv:
  assumes step: "\<And>i st. lo \<le> i \<Longrightarrow> i < hi \<Longrightarrow> P i st \<Longrightarrow> P (i + 1) (body i st)"
    and init: "P lo st" and le: "lo \<le> hi"
  shows "P hi (for_loop lo hi body st)"
  using init le step
proof (induction lo hi body st rule: for_loop.induct)
  case (1 i hi body st)
  show ?case
  proof (cases "i < hi")
    case True
    have "P hi (for_loop (i + 1) hi body (body i st))"
    proof (rule "1.IH" [OF True])
      show "P (i + 1) (body i st)" using "1.prems" True by simp
      show "i + 1 \<le> hi" using True by simp
      fix j st' assume "i + 1 \<le> j" "j < hi" "P j st'"
      then show "P (j + 1) (body j st')" using "1.prems"(3) [of j st'] by simp
    qed
    then show ?thesis by (simp add: for_loop_step True)
  next
    case False
    with "1.prems" have "i = hi" by simp
    with "1.prems" False show ?thesis by (simp add: for_loop_done)
  qed
qed

lemma for_loop_preserves:
  assumes step: "\<And>i st. lo \<le> i \<Longrightarrow> i < hi \<Longrightarrow> P st \<Longrightarrow> P (body i st)"
    and init: "P st"
  shows "P (for_loop lo hi body st)"
proof (cases "lo \<le> hi")
  case True
  then show ?thesis using for_loop_inv [where P = "\<lambda>i. P", OF step init] by simp
next
  case False
  then show ?thesis using init by (simp add: for_loop_done)
qed

lemma for_loop_establish:
  assumes lt: "lo < hi"
    and step: "\<And>i st. lo \<le> i \<Longrightarrow> i < hi \<Longrightarrow> R st \<Longrightarrow> R (body i st) \<and> Q (body i st)"
    and init: "R st"
  shows "R (for_loop lo hi body st) \<and> Q (for_loop lo hi body st)"
proof -
  have first: "R (body lo st) \<and> Q (body lo st)" using step [of lo st] lt init by simp
  have "(\<lambda>st. R st \<and> Q st) (for_loop (lo + 1) hi body (body lo st))"
  proof (rule for_loop_preserves)
    show "R (body lo st) \<and> Q (body lo st)" by (rule first)
    fix i st' assume "lo + 1 \<le> i" "i < hi" "R st' \<and> Q st'"
    then show "R (body i st') \<and> Q (body i st')" using step [of i st'] by simp
  qed
  then show ?thesis by (simp add: for_loop_step lt)
qed

lemma dims_iff: "dims g h w \<longleftrightarrow> length g = h \<and> (\<forall>i < h. length (g ! i) = w)"
  by (auto simp: dims_def list_all_length)

lemma dims_fresh: "dims (fresh_grid h w t) h w"
  by (simp add: dims_iff fresh_grid_def)

lemma set_cell_row:
  "i < length g \<Longrightarrow> set_cell g x yy v ! i = (if i = nat yy then (g ! i)[nat x := v] else g ! i)"
  by (simp add: set_cell_def nth_list_update)

lemma length_set_cell: "length (set_cell g x yy v) = length g"
  by (simp add: set_cell_def)

lemma dims_set_cell: "dims g h w \<Longrightarrow> dims (set_cell g x yy v) h w"
  by (simp add: dims_iff length_set_cell set_cell_row)

lemma set_cell_nth:
  "dims g h w \<Longrightarrow> i < h \<Longrightarrow> j < w
    \<Longrightarrow> set_cell g x yy v ! i ! j = (if i = nat yy \<and> j = nat x then v else g ! i ! j)"
  by (simp add: dims_iff set_cell_row nth_list_update)

lemma border_fresh: "border_is t (fresh_grid h w t)"
  by (simp add: border_is_def fresh_grid_def)

lemma border_is_dims:
  "dims g h w \<Longrightarrow> border_is t g
     \<longleftrightarrow> (\<forall>i < h. \<forall>j < w. (i = 0 \<or> i = h - 1 \<or> j = 0 \<or> j = w - 1) \<longrightarrow> g ! i ! j = t)"
  by (auto simp: border_is_def dims_iff)

lemma border_set_interior:
  assumes d: "dims g h w" and b: "border_is t g"
    and x: "1 \<le> x" "x < int w - 1" and y: "1 \<le> yy" "yy < int h - 1"
  shows "border_is t (set_cell g x yy v)"
proof -
  have d': "dims (set_cell g x yy v) h w" using d by (rule dims_set_cell)
  have "set_cell g x yy v ! i ! j = t"
    if ih: "i < h" and jw: "j < w" and e: "i = 0 \<or> i = h - 1 \<or> j = 0 \<or> j = w - 1" for i j
  proof -
    from e x y have ne: "\<not> (i = nat yy \<and> j = nat x)" by auto
    have "g ! i ! j = t"
      using b ih jw e unfolding border_is_dims [OF d] by blast
    with ne show ?thesis
      unfolding set_cell_nth [OF d ih jw] by auto
  qed
  then show ?thesis
    unfolding border_is_dims [OF d'] by blast
qed


lemma nested_preserves:
  assumes step: "\<And>yy x st. ylo \<le> yy \<Longrightarrow> yy < yhi \<Longrightarrow> xlo \<le> x \<Longrightarrow> x < xhi \<Longrightarrow> P st \<Longrightarrow> P (body yy x st)"
    and init: "P st"
  shows "P (for_loop ylo yhi (\<lambda>yy. for_loop xlo xhi (body yy)) st)"
proof (rule for_loop_preserves [where P = P, OF _ init])
  fix yy st' assume y: "ylo \<le> yy" "yy < yhi" and p: "P st'"
  show "P (for_loop xlo xhi (body yy) st')"
    by (rule for_loop_preserves [where P = P, OF _ p]) (rule step [OF y])
qed

lemma automaton_rules_shape:
  "dims (automaton_rules w h bl dl terrain) h w \<and> border_is ''wall'' (automaton_rules w h bl dl terrain)"
  unfolding automaton_rules_def
proof (rule nested_preserves [where P = "\<lambda>g. dims g h w \<and> border_is ''wall'' g"])
  show "dims (fresh_grid h w ''wall'') h w \<and> border_is ''wall'' (fresh_grid h w ''wall'')"
    by (simp add: dims_fresh border_fresh)
next
  fix yy x :: int and g :: grid
  assume y: "1 \<le> yy" "yy < int h - 1" and x: "1 \<le> x" "x < int w - 1"
    and g: "dims g h w \<and> border_is ''wall'' g"
  have "dims (set_cell g x yy v) h w \<and> border_is ''wall'' (set_cell g x yy v)" for v
    using g x y border_set_interior [of g h w "''wall''" x yy v] by (simp add: dims_set_cell)
  then show "dims (let neighbors = countNeighbors terrain x yy
         in if cell_id terrain x yy = ''empty''
            then (if neighbors < dl then set_cell g x yy ''wall''
                  else set_cell g x yy ''empty'')
            else (if neighbors > bl then set_cell g x yy ''empty''
                  else set_cell g x yy ''wall'')) h w \<and>
        border_is ''wall'' (let neighbors = countNeighbors terrain x yy
         in if cell_id terrain x yy = ''empty''
            then (if neighbors < dl then set_cell g x yy ''wall''
                  else set_cell g x yy ''empty'')
            else (if neighbors > bl then set_cell g x yy ''empty''
                  else set_cell g x yy ''wall''))"
    by (simp add: Let_def)
qed

lemma cell_id_dims:
  "dims g h w \<Longrightarrow> 0 \<le> x \<Longrightarrow> x < int w \<Longrightarrow> 0 \<le> yy \<Longrightarrow> yy < int h
    \<Longrightarrow> cell_id g x yy = g ! nat yy ! nat x"
  by (simp add: cell_id_def Let_def dims_iff)

lemma copy_back_eq:
  assumes n: "dims newT h w" and t: "dims t h w"
  shows "copy_back w h newT t = newT"
proof -
  let ?inner = "\<lambda>yy. for_loop 0 (int w) (\<lambda>x terrain. set_cell terrain x yy (cell_id newT x yy))"
  let ?I = "\<lambda>yy g. dims g h w \<and> (\<forall>i < nat yy. g ! i = newT ! i)"
  have inner: "?I (yy + 1) (?inner yy g)" if y: "0 \<le> yy" "yy < int h" and g: "?I yy g" for yy g
  proof -
    let ?J = "\<lambda>x g. dims g h w \<and> (\<forall>i < nat yy. g ! i = newT ! i)
                \<and> (\<forall>j < nat x. g ! nat yy ! j = newT ! nat yy ! j)"
    have "?J (int w) (?inner yy g)"
    proof (rule for_loop_inv [where P = ?J])
      show "?J 0 g" using g by simp
      show "(0::int) \<le> int w" by simp
    next
      fix x :: int and g' :: grid
      assume x: "0 \<le> x" "x < int w" and j: "?J x g'"
      from j have d: "dims g' h w" by simp
      have yh: "nat yy < h" using y by simp
      have c: "cell_id newT x yy = newT ! nat yy ! nat x"
        using n x y by (rule cell_id_dims)
      have rows: "set_cell g' x yy v ! i = g' ! i" if "i < nat yy" for i v
        using that d yh by (simp add: set_cell_row dims_iff)
      have cells: "set_cell g' x yy v ! nat yy ! k = (if k = nat x then v else g' ! nat yy ! k)"
        if "k < w" for k v
        using set_cell_nth [OF d yh that, of x yy v] by simp
      show "?J (x + 1) (set_cell g' x yy (cell_id newT x yy))"
      proof (intro conjI allI impI)
        show "dims (set_cell g' x yy (cell_id newT x yy)) h w" using d by (rule dims_set_cell)
        fix i assume "i < nat yy"
        then show "set_cell g' x yy (cell_id newT x yy) ! i = newT ! i"
          using j by (simp add: rows)
      next
        fix k assume k: "k < nat (x + 1)"
        with x have kw: "k < w" by simp
        from k x have "k < nat x \<or> k = nat x" by auto
        then show "set_cell g' x yy (cell_id newT x yy) ! nat yy ! k = newT ! nat yy ! k"
          using j by (auto simp: cells [OF kw] c)
      qed
    qed
    then have d: "dims (?inner yy g) h w"
      and before: "\<forall>i < nat yy. ?inner yy g ! i = newT ! i"
      and row: "\<forall>j < w. ?inner yy g ! nat yy ! j = newT ! nat yy ! j"
      by simp_all
    have yh: "nat yy < h" using y by simp
    have "?inner yy g ! nat yy = newT ! nat yy"
      using d n yh row by (intro nth_equalityI) (simp_all add: dims_iff)
    with before have "\<forall>i < nat (yy + 1). ?inner yy g ! i = newT ! i"
      using y by (auto simp: nat_add_distrib less_Suc_eq)
    with d show ?thesis by simp
  qed
  have "?I (int h) (for_loop 0 (int h) ?inner t)"
    by (rule for_loop_inv [where P = ?I]) (use t inner in simp_all)
  then have "dims (copy_back w h newT t) h w" "\<forall>i < h. copy_back w h newT t ! i = newT ! i"
    by (simp_all add: copy_back_def)
  then show ?thesis
    using n by (intro nth_equalityI) (simp_all add: dims_iff)
qed


lemma cellular_fill_dims: "dims (fst (cellular_fill config s)) (conf_height config) (conf_width config)"
proof -
  let ?h = "conf_height config" and ?w = "conf_width config"
  have "(\<lambda>(g, s). dims g ?h ?w) (cellular_fill config s)"
    unfolding cellular_fill_def Let_def
  proof (rule nested_preserves [where P = "\<lambda>(g, s). dims g ?h ?w"])
    show "case (fresh_grid ?h ?w ''wall'', s) of (g, s) \<Rightarrow> dims g ?h ?w"
      by (simp add: dims_fresh)
  next
    fix yy x :: int and st :: "grid \<times> int"
    assume "case st of (g, s) \<Rightarrow> dims g ?h ?w"
    then show "case (case st of (terrain, s) \<Rightarrow> case random s of (r, s') \<Rightarrow>
               if r < param_or (p_initialFill (conf_parameters config)) (45 / 100)
               then (set_cell terrain x yy ''empty'', s') else (terrain, s')) of (g, s) \<Rightarrow> dims g ?h ?w"
      by (auto simp: dims_set_cell split: prod.splits)
  qed
  then show ?thesis by (simp add: case_prod_unfold)
qed

lemma automaton_pass_shape:
  assumes "dims terrain h w"
  shows "dims (automaton_pass w h bl dl terrain) h w \<and> border_is ''wall'' (automaton_pass w h bl dl terrain)"
  using automaton_rules_shape [of w h bl dl terrain] assms
  by (simp add: automaton_pass_def copy_back_eq)

lemma cellular_iterate_dims:
  assumes "dims terrain (conf_height config) (conf_width config)"
  shows "dims (cellular_iterate config terrain) (conf_height config) (conf_width config)"
  unfolding cellular_iterate_def Let_def
  by (rule for_loop_preserves [where P = "\<lambda>g. dims g (conf_height config) (conf_width config)"])
     (simp_all add: automaton_pass_shape assms)

lemma cellular_iterate_border:
  assumes d: "dims terrain (conf_height config) (conf_width config)"
    and n: "1 \<le> param_or (p_iterations (conf_parameters config)) 4"
  shows "border_is ''wall'' (cellular_iterate config terrain)"
proof -
  let ?h = "conf_height config" and ?w = "conf_width config"
  have "dims (cellular_iterate config terrain) ?h ?w \<and> border_is ''wall'' (cellular_iterate config terrain)"
    unfolding cellular_iterate_def Let_def
  proof (rule for_loop_establish [where R = "\<lambda>g. dims g ?h ?w" and Q = "border_is ''wall''"])
    show "0 < param_or (p_iterations (conf_parameters config)) 4" using n by simp
    show "dims terrain ?h ?w" by (rule d)
  qed (simp add: automaton_pass_shape)
  then show ?thesis by simp
qed

lemma cellular_feature_cases:
  assumes "\<And>v. P (set_cell g x yy v)" and "P g"
  shows "P (fst (cellular_feature th g x yy s))"
  using assms by (simp add: cellular_feature_def split: prod.splits)

lemma addCellularFeatures_shape:
  assumes d: "dims g h w" and b: "border_is t g"
  shows "dims (fst (addCellularFeatures th (g, s))) h w \<and> border_is t (fst (addCellularFeatures th (g, s)))"
proof -
  let ?P = "\<lambda>(g, s). dims g h w \<and> border_is t g"
  have len: "length g = h" using d by (simp add: dims_iff)
  have fw: "1 < int h - 1 \<Longrightarrow> first_row_length g = w"
    using d by (cases g) (auto simp: first_row_length_def dims_def)
  have "?P (addCellularFeatures th (g, s))"
    unfolding addCellularFeatures_def prod.case
  proof (rule nested_preserves [where P = ?P])
    show "?P (g, s)" using d b by simp
  next
    fix yy x :: int and st :: "grid \<times> int"
    assume y: "1 \<le> yy" "yy < int (length g) - 1"
      and x: "1 \<le> x" "x < int (first_row_length g) - 1" and p: "?P st"
    obtain g' s' where st: "st = (g', s')" by (cases st)
    from p st have d': "dims g' h w" and b': "border_is t g'" by simp_all
    from y len have "1 < int h - 1" by simp
    with x fw have xw: "x < int w - 1" by simp
    have setok: "dims (set_cell g' x yy v) h w \<and> border_is t (set_cell g' x yy v)" for v
      using d' b' x(1) xw y len border_set_interior [of g' h w t x yy v] by (simp add: dims_set_cell)
    have feat: "dims (fst (cellular_feature th g' x yy s'')) h w \<and> border_is t (fst (cellular_feature th g' x yy s''))" for s''
      by (rule cellular_feature_cases) (use setok d' b' in simp_all)
    show "?P (case st of (terrain, s) \<Rightarrow>
           if cell_id terrain x yy = ''empty''
           then (case random s of (r, s') \<Rightarrow>
                   if r < 1 / 10 then cellular_feature th terrain x yy s' else (terrain, s'))
           else (terrain, s))"
      using feat d' b' by (auto simp: st case_prod_unfold)
  qed
  then show ?thesis by (simp add: case_prod_unfold)
qed

text \<open>
  Claim C10.  When the cellular run makes at least one update pass (the number of passes
  in force, \<open>iterations || 4\<close>, is at least 1), every edge cell of the grid is
  \<open>wall\<close> after the passes complete, for every seed and every initial fill, and the
  feature pass keeps it so in the grid that \<open>generateCellular\<close> returns.
\<close>

theorem cellular_border_is_wall:
  assumes "1 \<le> param_or (p_iterations (conf_parameters config)) 4"
  shows "border_is ''wall'' (cellular_iterate config (fst (cellular_fill config s)))
    \<and> border_is ''wall'' (fst (generateCellular config s))
    \<and> dims (fst (generateCellular config s)) (conf_height config) (conf_width config)"
proof -
  let ?t = "cellular_iterate config (fst (cellular_fill config s))"
  have d: "dims ?t (conf_height config) (conf_width config)"
    by (intro cellular_iterate_dims cellular_fill_dims)
  have b: "border_is ''wall'' ?t"
    using cellular_fill_dims assms by (rule cellular_iterate_border)
  have g: "fst (generateCellular config s) = fst (addCellularFeatures (conf_theme config) (?t, snd (cellular_fill config s)))"
    by (simp add: generateCellular_def case_prod_unfold)
  show ?thesis
    using addCellularFeatures_shape [OF d b] b by (simp add: g)
qed

theorem cellular_border_is_wall_witness:
  "(1::int) \<le> param_or (p_iterations (conf_parameters level_config)) 4
    \<and> border_is ''wall'' (fst (generateCellular level_config (seededRandom 12345)))
    \<and> dims (fst (generateCellular level_config (seededRandom 12345))) 25 25"
proof -
  have h: "(1::int) \<le> param_or (p_iterations (conf_parameters level_config)) 4"
    by (simp add: level_config_def level_parameters_def param_or_def)
  from cellular_border_is_wall [OF h, of "seededRandom 12345"] h show ?thesis
    by (simp add: level_config_def)
qed

text \<open>
  Claim C7 (zero iterations).  The code does not satisfy it: \<open>iterations\<close> is read as
  \<open>parameters.iterations as number || 4\<close>, so the value 0 is replaced by 4 and four
  update passes run.  On the 3 by 3 grid below with seed 1 the initial fill opens five
  cells, among them the corners; the grid returned is all \<open>wall\<close>.
\<close>

theorem zero_iterations_runs_four_passes:
  "p_iterations (conf_parameters zero_iterations_config) = Some 0
    \<and> param_or (p_iterations (conf_parameters zero_iterations_config)) 4 = 4
    \<and> fst (cellular_fill zero_iterations_config (seededRandom 1))
        = [[''empty'', ''empty'', ''empty''], [''wall'', ''wall'', ''wall''], [''empty'', ''wall'', ''empty'']]
    \<and> fst (generateCellular zero_iterations_config (seededRandom 1))
        = [[''wall'', ''wall'', ''wall''], [''wall'', ''wall'', ''wall''], [''wall'', ''wall'', ''wall'']]"
  by code_simp

section \<open>Running the partition layout\<close>

text \<open>
  Rules that run the generator on numerals inside the logic, and the run of the 6 by 6
  configuration with corridor width 4.
\<close>

lemma m_val: "lcg_m = 34359738337"
  by (simp add: lcg_m_def)

lemma list_update_Cons_numeral: "(x # xs)[numeral k := v] = x # xs[pred_numeral k := v]"
  by (simp add: numeral_eq_Suc)

lemma replicate_numeral_Cons: "replicate (numeral k) x = x # replicate (pred_numeral k) x"
  by (simp add: numeral_eq_Suc)

lemmas grid_eval = for_loop_step for_loop_done list_update_Cons_numeral replicate_numeral_Cons
  set_cell_def fresh_grid_def cell_id_def in_grid_def first_row_length_def row_exists_def
  write_cell_def and_then_def Let_def

lemma draw_floor_int:
  "draw_floor k s = ((js_rem (s * lcg_a) lcg_m * k) div lcg_m, js_rem (s * lcg_a) lcg_m)"
proof -
  have "\<lfloor>(of_int a / of_int b :: rat) * of_int k\<rfloor> = (a * k) div b" for a b :: int
    using floor_divide_of_int_eq [of "a * k" b, where ?'a = rat] by simp
  then show ?thesis by (simp add: draw_floor_def random_def Let_def)
qed

lemma random_numeral:
  "random (numeral k)
     = (of_int ((numeral k * 185852) mod 34359738337) / 34359738337,
        (numeral k * 185852) mod 34359738337)"
  by (simp add: random_def js_rem_def lcg_a_def m_val Let_def)

lemma draw_floor_numeral:
  "draw_floor n (numeral k)
     = ((((numeral k * 185852) mod 34359738337) * n) div 34359738337,
        (numeral k * 185852) mod 34359738337)"
  by (simp add: draw_floor_int js_rem_def lcg_a_def m_val)

lemma seededRandom_numeral: "seededRandom (numeral k) = numeral k mod 34359738337"
  by (simp add: seededRandom_def js_rem_def m_val)

lemma leaf_room_numeral:
  "leaf_room x yy w h minSize (numeral k) =
     (case draw_floor (w - minSize) (numeral k) of (f1, s1) \<Rightarrow>
      case draw_floor (h - minSize) s1 of (f2, s2) \<Rightarrow>
        let roomWidth = max minSize (min (w - 2) (f1 + minSize));
            roomHeight = max minSize (min (h - 2) (f2 + minSize))
        in case draw_floor (w - roomWidth - 1) s2 of (f3, s3) \<Rightarrow>
           case draw_floor (h - roomHeight - 1) s3 of (f4, s4) \<Rightarrow>
             let roomX = x + f3 + 1;
                 roomY = yy + f4 + 1;
                 room = make_room roomX roomY roomWidth roomHeight;
                 room = (if roomX + roomWidth > x + w
                         then room\<lparr>room_width := (x + w) - roomX - 1\<rparr> else room);
                 room = (if roomY + roomHeight > yy + h
                         then room\<lparr>room_height := (yy + h) - roomY - 1\<rparr> else room)
             in (room, s4))"
  by (simp add: leaf_room_def)

lemma bsp_leaf:
  "w < minSize * 2 \<or> h < minSize * 2 \<or> 0 \<ge> maxRooms
    \<Longrightarrow> generateRoomsBSP x yy w h minSize maxRooms s
        = (case leaf_room x yy w h minSize s of (room, s') \<Rightarrow> Some ([room], s'))"
  by (subst generateRoomsBSP.simps) simp

lemma bsp_split:
  "\<not> (w < minSize * 2 \<or> h < minSize * 2 \<or> 0 \<ge> maxRooms)
    \<Longrightarrow> generateRoomsBSP x yy w h minSize maxRooms s
        = (case random s of (r, s1) \<Rightarrow>
           if r < 1 / 2 \<and> h \<ge> minSize * 2 then
             (case draw_floor (h - minSize * 2) s1 of (f, s2) \<Rightarrow>
                let splitY = f + minSize + yy;
                    topHeight = splitY - yy;
                    bottomHeight = h - topHeight
                in Option.bind (generateRoomsBSP x yy w topHeight minSize (maxRooms - 0) s2)
                     (\<lambda>(topRooms, s3).
                        Option.bind (generateRoomsBSP x splitY w bottomHeight minSize
                                       (maxRooms - 0 - int (length topRooms)) s3)
                          (\<lambda>(bottomRooms, s4). Some (topRooms @ bottomRooms, s4))))
           else if w \<ge> minSize * 2 then
             (case draw_floor (w - minSize * 2) s1 of (f, s2) \<Rightarrow>
                let splitX = f + minSize + x;
                    leftWidth = splitX - x;
                    rightWidth = w - leftWidth
                in Option.bind (generateRoomsBSP x yy leftWidth h minSize (maxRooms - 0) s2)
                     (\<lambda>(leftRooms, s3).
                        Option.bind (generateRoomsBSP splitX yy rightWidth h minSize
                                       (maxRooms - 0 - int (length leftRooms)) s3)
                          (\<lambda>(rightRooms, s4). Some (leftRooms @ rightRooms, s4))))
           else
             Some ([make_room (x + 1) (yy + 1) (max minSize (min (w - 2) (w - 1)))
                      (max minSize (min (h - 2) (h - 1)))], s1))"
  by (subst generateRoomsBSP.simps) simp

lemma small_rooms:
  "generateRoomsBSP 1 1 4 4 2 8 7
     = Some ([\<lparr>room_x = 2, room_y = 1, room_width = 2, room_height = 2,
                room_centerX = 3, room_centerY = 2\<rparr>,
              \<lparr>room_x = 2, room_y = 3, room_width = 2, room_height = 2,
                room_centerX = 3, room_centerY = 4\<rparr>], 17825751386)"
  by (simp add: random_numeral draw_floor_numeral bsp_leaf bsp_split leaf_room_numeral
      make_room_def Let_def)

lemma small_canvas:
  "bsp_canvas 6 6 = small_canvas_grid"
  by (simp add: grid_eval bsp_canvas_def small_canvas_grid_def)


lemma small_stamped:
  "fold (\<lambda>room r. and_then r (\<lambda>terrain. createRoom terrain room)) small_room_list
       (Inr small_canvas_grid) = Inr small_rooms_grid"
  by (simp add: grid_eval createRoom_def small_room_list_def small_canvas_grid_def
      small_rooms_grid_def)

lemma small_connected:
  "connectRooms small_rooms_grid small_room_list 4 = Inr small_carved_grid"
  apply (simp add: connectRooms_def small_room_list_def for_loop_step for_loop_done)
  apply (rule conjI)
   apply (simp add: small_rooms_grid_def)
  apply (simp add: connect_pair_def small_rooms_grid_def first_row_length_def Let_def)
  apply (simp add: for_loop_step for_loop_done)
  apply (simp add: grid_eval carve_def small_carved_grid_def)
  done


lemma and_then_Inr: "and_then (Inr v) f = f v"
  by (simp add: and_then_def)

lemma and_then_Inl: "and_then (Inl e) f = Inl e"
  by (simp add: and_then_def)

lemma small_room_features:
  "fold (\<lambda>room r. and_then r (room_features th room)) small_room_list (Inr st) = Inr st"
  by (simp add: small_room_list_def room_features_def and_then_Inr)

lemma small_corridor_features:
  "addCorridorFeatures (small_carved_grid, 17825751386) = (small_carved_grid, 25416233335)"
  by (simp add: addCorridorFeatures_def small_carved_grid_def first_row_length_def
      for_loop_step for_loop_done cell_id_def random_numeral)

lemma generateBSP_run:
  assumes "generateRoomsBSP 1 1 (int (conf_width c) - 2) (int (conf_height c) - 2)
             (param_or (p_minRoomSize (conf_parameters c)) 4)
             (param_or (p_maxRooms (conf_parameters c)) 8) s0 = Some (rooms, s1)"
    and "fold (\<lambda>room r. and_then r (\<lambda>terrain. createRoom terrain room)) rooms
           (Inr (bsp_canvas (conf_width c) (conf_height c))) = Inr g1"
    and "connectRooms g1 rooms (param_or (p_corridorWidth (conf_parameters c)) 1) = Inr g2"
    and "addBSPFeatures (conf_theme c) rooms (g2, s1) = Inr r"
  shows "generateBSP c s0 = Inr r"
  by (simp add: generateBSP_def Let_def assms and_then_Inr)

lemma small_run:
  "generateBSP (small_config alg 4) (seededRandom 7) = Inr (small_carved_grid, 25416233335)"
proof (rule generateBSP_run)
  show "generateRoomsBSP 1 1 (int (conf_width (small_config alg 4)) - 2)
          (int (conf_height (small_config alg 4)) - 2)
          (param_or (p_minRoomSize (conf_parameters (small_config alg 4))) 4)
          (param_or (p_maxRooms (conf_parameters (small_config alg 4))) 8) (seededRandom 7)
        = Some (small_room_list, 17825751386)"
    by (simp add: small_config_def param_or_def seededRandom_numeral small_rooms small_room_list_def)
  show "fold (\<lambda>room r. and_then r (\<lambda>terrain. createRoom terrain room)) small_room_list
          (Inr (bsp_canvas (conf_width (small_config alg 4)) (conf_height (small_config alg 4))))
        = Inr small_rooms_grid"
    using small_stamped by (simp add: small_config_def small_canvas)
  show "connectRooms small_rooms_grid small_room_list
          (param_or (p_corridorWidth (conf_parameters (small_config alg 4))) 1)
        = Inr small_carved_grid"
    using small_connected by (simp add: small_config_def param_or_def)
  show "addBSPFeatures (conf_theme (small_config alg 4)) small_room_list
          (small_carved_grid, 17825751386) = Inr (small_carved_grid, 25416233335)"
    by (simp add: addBSPFeatures_def small_room_features small_corridor_features and_then_Inr)
qed

section \<open>Border of the template and partition layouts\<close>








subsection \<open>The base template\<close>




subsection \<open>The canvas of the partition layout\<close>




subsection \<open>The rooms of the partition lie inside their regions\<close>








subsection \<open>Rooms, corridors and features keep the border\<close>













subsection \<open>The border invariant\<close>




section \<open>Dispatch on the algorithm name\<close>

text \<open>
  Claim C8, as the code has it.  An algorithm name outside bsp, cellular, drunkard,
  template and mixed takes the \<open>default\<close> branch of the \<open>switch\<close>, which is commented
  \<open>Default to BSP\<close>: \<open>generate()\<close> then is \<open>generateBSP()\<close>, with the same grid, the
  same failure and the same draws from the stream.
\<close>

theorem unknown_algorithm_runs_bsp:
  assumes "conf_algorithm config \<noteq> ''bsp''" "conf_algorithm config \<noteq> ''cellular''"
    "conf_algorithm config \<noteq> ''drunkard''" "conf_algorithm config \<noteq> ''template''"
    "conf_algorithm config \<noteq> ''mixed''"
  shows "generate config s = generateBSP config s"
  using assms by (simp add: generate_def)

theorem unknown_algorithm_runs_bsp_witness:
  "conf_algorithm (small_config ''foo'' 4) \<noteq> ''bsp''
    \<and> conf_algorithm (small_config ''foo'' 4) \<noteq> ''cellular''
    \<and> conf_algorithm (small_config ''foo'' 4) \<noteq> ''drunkard''
    \<and> conf_algorithm (small_config ''foo'' 4) \<noteq> ''template''
    \<and> conf_algorithm (small_config ''foo'' 4) \<noteq> ''mixed''
    \<and> generate (small_config ''foo'' 4) (seededRandom 7)
        = generateBSP (small_config ''foo'' 4) (seededRandom 7)"
proof -
  have h: "conf_algorithm (small_config ''foo'' 4) \<noteq> ''bsp''"
    "conf_algorithm (small_config ''foo'' 4) \<noteq> ''cellular''"
    "conf_algorithm (small_config ''foo'' 4) \<noteq> ''drunkard''"
    "conf_algorithm (small_config ''foo'' 4) \<noteq> ''template''"
    "conf_algorithm (small_config ''foo'' 4) \<noteq> ''mixed''"
    by (simp_all add: small_config_def)
  from unknown_algorithm_runs_bsp [OF h, of "seededRandom 7"] h show ?thesis
    by blast
qed

text \<open>
  Claim C8 as stated fails: with the algorithm name \<open>foo\<close> the 6 by 6 configuration
  returns a partition grid and no error, and the stream has moved from its seed state 7.
\<close>

theorem unknown_algorithm_returns_grid:
  "generate (small_config ''foo'' 4) (seededRandom 7) = Inr (small_carved_grid, 25416233335)
    \<and> seededRandom 7 = 7"
proof -
  have "generate (small_config ''foo'' 4) (seededRandom 7)
      = generateBSP (small_config ''foo'' 4) (seededRandom 7)"
    by (simp add: generate_def small_config_def)
  then have "generate (small_config ''foo'' 4) (seededRandom 7) = Inr (small_carved_grid, 25416233335)"
    by (simp only: small_run)
  moreover have "seededRandom 7 = 7"
    by (simp add: seededRandom_numeral)
  ultimately show ?thesis by (rule conjI)
qed

section \<open>Determinism of generation\<close>

lemma fresh_objects:
  "new_TerrainGenerator config st = (a, st1)
    \<Longrightarrow> a = next_ref st \<and> next_ref st1 = Suc a
      \<and> objects st1 a = Some \<lparr>tg_config = config, tg_s = seededRandom (conf_seed config)\<rparr>
      \<and> (\<forall>r. r \<noteq> a \<longrightarrow> objects st1 r = objects st r)"
  by (auto simp: new_TerrainGenerator_def)

lemma call_generate_result:
  "objects st a = Some \<lparr>tg_config = config, tg_s = s\<rparr>
    \<Longrightarrow> fst (call_generate a st) = map_sum id fst (generate config s)"
  by (simp add: call_generate_def split: sum.splits prod.splits)



text \<open>The property is not empty: for the 6 by 6 configuration the common result is a grid.\<close>

lemma instance_run_example:
  "fst (call_generate (fst (new_TerrainGenerator (small_config ''bsp'' 4) st))
         (snd (new_TerrainGenerator (small_config ''bsp'' 4) st))) = Inr small_carved_grid"
proof -
  obtain c s1 where n: "new_TerrainGenerator (small_config ''bsp'' 4) st = (c, s1)"
    by (cases "new_TerrainGenerator (small_config ''bsp'' 4) st")
  have seed: "conf_seed (small_config ''bsp'' 4) = 7" by (simp add: small_config_def)
  have alg: "conf_algorithm (small_config ''bsp'' 4) = ''bsp''" by (simp add: small_config_def)
  have "generate (small_config ''bsp'' 4) (seededRandom 7)
      = generateBSP (small_config ''bsp'' 4) (seededRandom 7)"
    by (simp only: generate_def alg refl if_True)
  then have gen: "generate (small_config ''bsp'' 4) (seededRandom 7) = Inr (small_carved_grid, 25416233335)"
    by (simp only: small_run)
  from fresh_objects [OF n]
  have "objects s1 c = Some \<lparr>tg_config = small_config ''bsp'' 4,
      tg_s = seededRandom (conf_seed (small_config ''bsp'' 4))\<rparr>"
    by blast
  from call_generate_result [OF this] show ?thesis
    unfolding seed gen by (simp add: n)
qed

end
